theory Spec2Isabelle
  imports Main "HOL-Library.Word"
begin

section \<open>JavaScript values\<close>

text \<open>
  A JavaScript string is a sequence of UTF-16 code units. Literals of the source are written
  with \<open>ascii\<close> for their ASCII stretches and as explicit code units elsewhere.
\<close>

type_synonym js_string = "16 word list"

definition ascii :: "string \<Rightarrow> js_string" where
  "ascii s = map of_char s"

text \<open>
  \<open>String.prototype.trim\<close>: strips the code units of WhiteSpace and LineTerminator from both
  ends.
\<close>

definition is_whitespace :: "16 word \<Rightarrow> bool" where
  "is_whitespace c =
     (c = 0x9 \<or> c = 0xA \<or> c = 0xB \<or> c = 0xC \<or> c = 0xD \<or> c = 0x20 \<or> c = 0xA0 \<or>
      c = 0x1680 \<or> (0x2000 \<le> c \<and> c \<le> 0x200A) \<or> c = 0x2028 \<or> c = 0x2029 \<or>
      c = 0x202F \<or> c = 0x205F \<or> c = 0x3000 \<or> c = 0xFEFF)"

definition trim :: "js_string \<Rightarrow> js_string" where
  "trim s = rev (dropWhile is_whitespace (rev (dropWhile is_whitespace s)))"

text \<open>
  The values that \<open>response.json()\<close> can resolve to. \<open>JObj\<close> lists the properties of
  an object, each key once. A number is carried by its canonical decimal form, the string
  that \<open>Number.prototype.toString\<close> gives for it (\<open>0\<close>, \<open>13000020\<close>, \<open>0.5\<close>,
  \<open>1e+21\<close>): the program copies numbers, tests them for zero and prints them, and does
  nothing else with them.
\<close>

datatype json =
    JNull
  | JBool bool
  | JNum js_string
  | JStr js_string
  | JArr "json list"
  | JObj "(js_string \<times> json) list"

text \<open>What the operations of the two pages can throw inside their \<open>try\<close> blocks.\<close>

datatype js_error =
    FetchRejected
  | HttpError nat
  | JsonSyntaxError
  | NullPropertyRead
  | NotPrimitive
  | URIError
  | StorageWriteFailed

text \<open>
  Truthiness, as \<open>if (v)\<close>, \<open>!v\<close> and \<open>v || w\<close> test it. Of the numbers that JSON can
  carry only zero is falsy, and both zeros print as \<open>0\<close>.
\<close>

fun truthy :: "json \<Rightarrow> bool" where
  "truthy JNull = False"
| "truthy (JBool b) = b"
| "truthy (JNum n) = (n \<noteq> ascii ''0'')"
| "truthy (JStr s) = (s \<noteq> [])"
| "truthy (JArr xs) = True"
| "truthy (JObj kvs) = True"

text \<open>
  Reading a property \<open>v.k\<close>. \<open>None\<close> is \<open>undefined\<close>. On \<open>null\<close> the read throws a
  TypeError; on an object it finds the property; every other value has none of the
  properties the program reads (\<open>response\<close>, \<open>success\<close>, \<open>message\<close>, \<open>identifier\<close>).
\<close>

fun field :: "json \<Rightarrow> js_string \<Rightarrow> json option" where
  "field (JObj kvs) k = map_of kvs k"
| "field v k = None"

definition get_prop :: "json \<Rightarrow> js_string \<Rightarrow> js_error + json option" where
  "get_prop v k = (if v = JNull then Inl NullPropertyRead else Inr (field v k))"

definition truthy_opt :: "json option \<Rightarrow> bool" where
  "truthy_opt a = (case a of None \<Rightarrow> False | Some v \<Rightarrow> truthy v)"

text \<open>\<open>a || b\<close> with a possibly undefined left operand.\<close>

definition js_or :: "json option \<Rightarrow> json \<Rightarrow> json" where
  "js_or a b = (case a of None \<Rightarrow> b | Some v \<Rightarrow> if truthy v then v else b)"

text \<open>
  The clock. A time value is at most 8.64e15 milliseconds, so that \<open>Date.now()\<close>, also with
  1 or 2 added, is an integer below \<open>2 ^ 53\<close>, where \<open>Number.prototype.toString\<close> gives the
  plain decimal digits. \<open>Number_toString\<close> is applied to such values only.
\<close>

definition time_value :: "nat \<Rightarrow> nat" where
  "time_value t = min t 8640000000000000"

fun digits :: "nat \<Rightarrow> js_string" where
  "digits n = (if n < 10 then [of_nat (48 + n)] else digits (n div 10) @ [of_nat (48 + n mod 10)])"

definition Number_toString :: "nat \<Rightarrow> js_string" where
  "Number_toString n = digits n"

fun join :: "js_string \<Rightarrow> js_string list \<Rightarrow> js_string" where
  "join sep [] = []"
| "join sep [x] = x"
| "join sep (x # y # ys) = x @ sep @ join sep (y # ys)"

text \<open>The first exception of a sequence of evaluations, or all their values.\<close>

fun collect :: "(js_error + 'a) list \<Rightarrow> js_error + 'a list" where
  "collect [] = Inr []"
| "collect (Inl e # rs) = Inl e"
| "collect (Inr x # rs) = (case collect rs of Inl e \<Rightarrow> Inl e | Inr xs \<Rightarrow> Inr (x # xs))"

text \<open>
  The string conversion that a template literal applies to \<open>${v}\<close>. An array is joined
  with commas, \<open>null\<close> elements giving the empty string. An object goes through
  \<open>Object.prototype.toString\<close>, unless it has a property \<open>toString\<close> of its own: that
  property is not callable (JSON carries no functions), \<open>valueOf\<close> gives no primitive, and
  the conversion throws a TypeError.
\<close>

fun ToString :: "json \<Rightarrow> js_error + js_string" where
  "ToString JNull = Inr (ascii ''null'')"
| "ToString (JBool b) = Inr (if b then ascii ''true'' else ascii ''false'')"
| "ToString (JNum n) = Inr n"
| "ToString (JStr s) = Inr s"
| "ToString (JArr xs) =
     (case collect (map (\<lambda>x. if x = JNull then Inr [] else ToString x) xs) of
        Inl e \<Rightarrow> Inl e
      | Inr ss \<Rightarrow> Inr (join (ascii '','') ss))"
| "ToString (JObj kvs) =
     (if map_of kvs (ascii ''toString'') = None then Inr (ascii ''[object Object]'')
      else Inl NotPrimitive)"

definition ToString_opt :: "json option \<Rightarrow> js_error + js_string" where
  "ToString_opt a = (case a of None \<Rightarrow> Inr (ascii ''undefined'') | Some v \<Rightarrow> ToString v)"

section \<open>The network\<close>

datatype http_method = GET | POST

record http_request =
  request_method :: http_method
  url :: js_string
  headers :: "(js_string \<times> js_string) list"
  body :: "json option"

text \<open>
  What \<open>await fetch(...)\<close> gives: a rejection, or a response with its status and what
  \<open>response.json()\<close> resolves to (\<open>None\<close> when the body is not JSON and it rejects). The body
  of a request is kept as the value handed to \<open>JSON.stringify\<close>.
\<close>

datatype fetch_result =
    NetworkFailure
  | Response nat "json option"

definition ok :: "nat \<Rightarrow> bool" where
  "ok status = (200 \<le> status \<and> status \<le> 299)"

text \<open>A backend that settles every request the same way.\<close>

definition answering :: "fetch_result \<Rightarrow> http_request \<Rightarrow> fetch_result" where
  "answering r req = r"

definition API_BASE_URL :: js_string where
  "API_BASE_URL = ascii ''http://localhost:3002''"

section \<open>The conversation page (pages/index.tsx)\<close>

datatype Sender = User | AI

record Message =
  id' :: js_string
  content :: json
  sender :: Sender
  timestamp :: nat
  isLoading :: "bool option"

record ConversationPage =
  messages :: "Message list"
  inputValue :: js_string
  isLoading :: bool

definition SESSION_ID :: js_string where
  "SESSION_ID = ascii ''super-ai-chat-session''"

text \<open>A turn is pending when its optional \<open>isLoading\<close> flag is set.\<close>

definition pending :: "Message \<Rightarrow> bool" where
  "pending m = (Message.isLoading m = Some True)"

definition welcome_text :: js_string where
  "welcome_text =
     [0xD83E, 0xDDE0] @
     ascii '' **Welcome to Ticket AI!**'' @
     [0xA, 0xA] @
     ascii ''I'' @
     [0x27] @
     ascii ''m your intelligent ticket database assistant. I can help you'' @
     ascii '' with:'' @
     [0xA, 0xA, 0xD83D, 0xDD0D] @
     ascii '' **Smart Queries**'' @
     [0xA, 0x2022] @
     ascii '' '' @
     [0x22] @
     ascii ''list all ticket IDs'' @
     [0x22] @
     ascii '' - Get every ticket identifier'' @
     [0xA, 0x2022] @
     ascii '' '' @
     [0x22] @
     ascii ''find tickets from john@email.com'' @
     [0x22] @
     ascii '' - Search by customer'' @
     [0xA, 0x2022] @
     ascii '' '' @
     [0x22] @
     ascii ''show open tickets'' @
     [0x22] @
     ascii '' - Filter by status'' @
     [0xA, 0xA, 0xD83D, 0xDCCA] @
     ascii '' **Database Insights**'' @
     [0xA, 0x2022] @
     ascii '' '' @
     [0x22] @
     ascii ''explain how my data structure works'' @
     [0x22] @
     ascii '' - Complete overview'' @
     [0xA, 0x2022] @
     ascii '' '' @
     [0x22] @
     ascii ''what is a ticketID'' @
     [0x22] @
     ascii '' - Field explanations'' @
     [0xA, 0xA, 0xD83D, 0xDD04] @
     ascii '' **Conversation Memory**'' @
     [0xA, 0x2022] @
     ascii '' '' @
     [0x22] @
     ascii ''see more'' @
     [0x22] @
     ascii '' - Continue from previous results'' @
     [0xA, 0x2022] @
     ascii '' I remember our conversation context!'' @
     [0xA, 0xA] @
     ascii ''Just ask me anything naturally. What would you like to explo'' @
     ascii ''re?''"

definition fallback_text :: js_string where
  "fallback_text = ascii ''Sorry, I encountered an issue processing your request.''"

definition connection_error_text :: js_string where
  "connection_error_text =
     [0x274C] @
     ascii '' **Connection Error**'' @
     [0xA, 0xA] @
     ascii ''I couldn'' @
     [0x27] @
     ascii ''t connect to the Super AI backend. Please make sure:'' @
     [0xA, 0xA, 0x2022] @
     ascii '' The backend server is running on '' @
     [0x60] @
     ascii ''localhost:3002'' @
     [0x60, 0xA, 0x2022] @
     ascii '' Run '' @
     [0x60] @
     ascii ''npm run dev'' @
     [0x60] @
     ascii '' in your backend directory'' @
     [0xA, 0x2022] @
     ascii '' Check the console for any errors'' @
     [0xA, 0xA] @
     ascii ''Try your message again once the backend is ready!''"

text \<open>
  A handler or an effect is a closure of the render that created it: it reads the state of
  that render (\<open>r\<close> below) and sends its updates to the live page (\<open>s\<close>). \<open>setMessages\<close>
  with a function updates the live transcript; the other setters store a value.

  The effect that seeds the transcript: \<open>if (messages.length === 0) setMessages([...])\<close>.
  \<open>t\<close> is the reading of the clock.
\<close>

definition welcome_effect ::
  "nat \<Rightarrow> ConversationPage \<Rightarrow> ConversationPage \<Rightarrow> ConversationPage" where
  "welcome_effect t r s =
     (if length (messages r) = 0
      then s\<lparr>messages :=
             [\<lparr>id' = ascii ''1'', content = JStr welcome_text, sender = AI,
               timestamp = time_value t, Message.isLoading = None\<rparr>]\<rparr>
      else s)"

definition handleInputChange :: "js_string \<Rightarrow> ConversationPage \<Rightarrow> ConversationPage" where
  "handleInputChange v s = s\<lparr>inputValue := v\<rparr>"

text \<open>
  The two turns that \<open>sendMessage\<close> builds first, and its call of \<open>fetch\<close>. \<open>now k\<close> is
  the k-th reading of the clock during the call (\<open>Date.now()\<close> and \<open>new Date()\<close>).
\<close>

definition userMessage :: "(nat \<Rightarrow> nat) \<Rightarrow> ConversationPage \<Rightarrow> Message" where
  "userMessage now s =
     \<lparr>id' = Number_toString (time_value (now 0)), content = JStr (trim (inputValue s)),
      sender = User, timestamp = time_value (now 1), Message.isLoading = None\<rparr>"

definition loadingMessage :: "(nat \<Rightarrow> nat) \<Rightarrow> Message" where
  "loadingMessage now =
     \<lparr>id' = Number_toString (time_value (now 2) + 1), content = JStr [],
      sender = AI, timestamp = time_value (now 3), Message.isLoading = Some True\<rparr>"

definition chat_request :: "Message \<Rightarrow> http_request" where
  "chat_request m =
     \<lparr>request_method = POST,
      url = API_BASE_URL @ ascii ''/chat'',
      headers = [(ascii ''Content-Type'', ascii ''application/json'')],
      body = Some (JObj [(ascii ''message'', content m),
                         (ascii ''sessionId'', JStr SESSION_ID)])\<rparr>"

text \<open>
  \<open>sendMessage\<close> of the render \<open>r\<close>, called on the live page \<open>s\<close>, up to its \<open>await\<close>.
  The guard and the user turn read \<open>inputValue\<close> and \<open>isLoading\<close> of the render.
  \<open>None\<close>: the guard returned, nothing was done. Otherwise the live page after the three
  state updates, and the request handed to \<open>fetch\<close>.
\<close>

definition sendMessage_call ::
  "(nat \<Rightarrow> nat) \<Rightarrow> ConversationPage \<Rightarrow> ConversationPage \<Rightarrow>
     (ConversationPage \<times> http_request) option" where
  "sendMessage_call now r s =
     (if trim (inputValue r) = [] \<or> ConversationPage.isLoading r then None
      else Some
             (s\<lparr>messages := messages s @ [userMessage now r, loadingMessage now],
                inputValue := [],
                ConversationPage.isLoading := True\<rparr>,
              chat_request (userMessage now r)))"

text \<open>The call from the latest render, which has closed over the live page.\<close>

definition sendMessage_start ::
  "(nat \<Rightarrow> nat) \<Rightarrow> ConversationPage \<Rightarrow> (ConversationPage \<times> http_request) option" where
  "sendMessage_start now s = sendMessage_call now s s"

text \<open>
  The \<open>try\<close> block after the \<open>await\<close>: either the reply turn, or what was thrown together
  with the number of the next clock reading (the object literal of \<open>aiMessage\<close> reads the
  clock for \<open>id\<close> before it reads \<open>data.response\<close>).
\<close>

definition sendMessage_try :: "(nat \<Rightarrow> nat) \<Rightarrow> fetch_result \<Rightarrow> (js_error \<times> nat) + Message" where
  "sendMessage_try now r =
     (case r of
        NetworkFailure \<Rightarrow> Inl (FetchRejected, 4)
      | Response status parsed \<Rightarrow>
          if ok status then
            (case parsed of
               None \<Rightarrow> Inl (JsonSyntaxError, 4)
             | Some data \<Rightarrow>
                 (case get_prop data (ascii ''response'') of
                    Inl e \<Rightarrow> Inl (e, 5)
                  | Inr v \<Rightarrow>
                      Inr \<lparr>id' = Number_toString (time_value (now 4) + 2),
                           content = js_or v (JStr fallback_text),
                           sender = AI, timestamp = time_value (now 5),
                           Message.isLoading = None\<rparr>))
          else Inl (HttpError status, 4))"

definition errorMessage :: "(nat \<Rightarrow> nat) \<Rightarrow> nat \<Rightarrow> Message" where
  "errorMessage now k =
     \<lparr>id' = Number_toString (time_value (now k) + 2), content = JStr connection_error_text,
      sender = AI, timestamp = time_value (now (k + 1)), Message.isLoading = None\<rparr>"

text \<open>The turn that takes the placeholder's place: \<open>aiMessage\<close> of the \<open>try\<close> block, or
  \<open>errorMessage\<close> of the \<open>catch\<close> block.\<close>

definition reply :: "(nat \<Rightarrow> nat) \<Rightarrow> fetch_result \<Rightarrow> Message" where
  "reply now r =
     (case sendMessage_try now r of
        Inr aiMessage \<Rightarrow> aiMessage
      | Inl (e, k) \<Rightarrow> errorMessage now k)"

text \<open>
  \<open>sendMessage\<close> from the \<open>await\<close> on: \<open>try\<close>, \<open>catch\<close> and \<open>finally\<close>.
  \<open>prev.slice(0, -1).concat([m])\<close> is \<open>butlast prev @ [m]\<close>.
\<close>

definition sendMessage_resume ::
  "(nat \<Rightarrow> nat) \<Rightarrow> fetch_result \<Rightarrow> ConversationPage \<Rightarrow> ConversationPage" where
  "sendMessage_resume now r s =
     s\<lparr>messages := butlast (messages s) @ [reply now r], ConversationPage.isLoading := False\<rparr>"

text \<open>
  One whole call of \<open>sendMessage\<close> from the latest render against a backend \<open>fetch\<close>, with
  nothing else happening before the request settles: the page it leaves and the requests
  it issued.
\<close>

definition sendMessage ::
  "(http_request \<Rightarrow> fetch_result) \<Rightarrow> (nat \<Rightarrow> nat) \<Rightarrow> ConversationPage \<Rightarrow>
     ConversationPage \<times> http_request list" where
  "sendMessage fetch now s =
     (case sendMessage_start now s of
        None \<Rightarrow> (s, [])
      | Some (s1, req) \<Rightarrow> (sendMessage_resume now (fetch req) s1, [req]))"

subsection \<open>Executions of the conversation page\<close>

text \<open>
  A session is the live page, the page that the latest render has closed over, and the
  number of \<open>sendMessage\<close> calls suspended at their \<open>await\<close>. An event is a call of a
  handler of the latest render: the mount effect, a change of the input (the textarea and
  the suggestion buttons are rendered with \<open>disabled={isLoading}\<close>), a call of
  \<open>sendMessage\<close>, or the settling of a request, which resumes a suspended call.
\<close>

record session =
  page :: ConversationPage
  rendered :: ConversationPage
  suspended :: nat

datatype event =
    Mount nat
  | Typing js_string
  | Submit "nat \<Rightarrow> nat"
  | Settle "nat \<Rightarrow> nat" fetch_result

fun handle :: "session \<Rightarrow> event \<Rightarrow> session" where
  "handle c (Mount t) = c\<lparr>page := welcome_effect t (rendered c) (page c)\<rparr>"
| "handle c (Typing v) =
     (if ConversationPage.isLoading (rendered c) then c
      else c\<lparr>page := handleInputChange v (page c)\<rparr>)"
| "handle c (Submit now) =
     (case sendMessage_call now (rendered c) (page c) of
        None \<Rightarrow> c
      | Some (s1, req) \<Rightarrow> c\<lparr>page := s1, suspended := Suc (suspended c)\<rparr>)"
| "handle c (Settle now r) =
     (if suspended c = 0 then c
      else c\<lparr>page := sendMessage_resume now r (page c), suspended := suspended c - 1\<rparr>)"

text \<open>React renders again: the handlers now close over the live page.\<close>

definition rerender :: "session \<Rightarrow> session" where
  "rerender c = c\<lparr>rendered := page c\<rparr>"

definition initial_session :: session where
  "initial_session =
     \<lparr>page = \<lparr>messages = [], inputValue = [], ConversationPage.isLoading = False\<rparr>,
      rendered = \<lparr>messages = [], inputValue = [], ConversationPage.isLoading = False\<rparr>,
      suspended = 0\<rparr>"




text \<open>An execution in which React renders after every event.\<close>

definition apply_event :: "session \<Rightarrow> event \<Rightarrow> session" where
  "apply_event c e = rerender (handle c e)"

text \<open>A page with nothing in flight, an empty transcript and \<open>v\<close> in the input.\<close>

definition composing :: "js_string \<Rightarrow> ConversationPage" where
  "composing v = \<lparr>messages = [], inputValue = v, ConversationPage.isLoading = False\<rparr>"

definition run :: "event list \<Rightarrow> session" where
  "run es = foldl apply_event initial_session es"

text \<open>The invariant of the executions that render after every event: idle with no pending
  turn, or one call in flight whose pending turn is the last one, the input being cleared
  and locked.\<close>

definition idle :: "session \<Rightarrow> bool" where
  "idle c = (rendered c = page c \<and> suspended c = 0 \<and>
             (ConversationPage.isLoading (page c) = False) \<and>
             filter pending (messages (page c)) = [])"

definition in_flight :: "session \<Rightarrow> bool" where
  "in_flight c = (rendered c = page c \<and> suspended c = 1 \<and>
                  ConversationPage.isLoading (page c) \<and>
                  messages (page c) \<noteq> [] \<and> pending (last (messages (page c))) \<and>
                  filter pending (butlast (messages (page c))) = [] \<and>
                  inputValue (page c) = [])"

section \<open>The summary page\<close>

text \<open>
  The state of \<open>SummaryPage\<close>. \<open>summaryData\<close> holds whatever value was stored, \<open>JNull\<close>
  for \<open>null\<close>. \<open>stored\<close> is the item \<open>recent-searches\<close> of \<open>localStorage\<close>, kept as the
  list its JSON text encodes (\<open>None\<close>: no item).
\<close>

record SummaryPage =
  searchQuery :: js_string
  summaryData :: json
  isLoading :: bool
  recentSearches :: "js_string list"
  stored :: "js_string list option"

definition load_effect :: "SummaryPage \<Rightarrow> SummaryPage" where
  "load_effect s = (case stored s of None \<Rightarrow> s | Some saved \<Rightarrow> s\<lparr>recentSearches := saved\<rparr>)"

text \<open>\<open>[query, ...recentSearches.filter(s => s !== query)].slice(0, 5)\<close>\<close>

definition updated :: "js_string \<Rightarrow> js_string list \<Rightarrow> js_string list" where
  "updated query recent = take 5 (query # filter (\<lambda>s. s \<noteq> query) recent)"

text \<open>
  \<open>saveRecentSearch\<close> reads \<open>recentSearches\<close> of the render its closure belongs to, here
  the argument \<open>recent\<close>. It sets the state and then writes \<open>localStorage\<close>. \<open>setItem\<close> is the
  browser's: \<open>None\<close> when the list was stored, or the exception it threw (the quota is
  exceeded, storage is disabled); the state has been set by then.
\<close>

definition saveRecentSearch ::
  "(js_string list \<Rightarrow> js_error option) \<Rightarrow> js_string \<Rightarrow> js_string list \<Rightarrow> SummaryPage \<Rightarrow>
     SummaryPage \<times> js_error option" where
  "saveRecentSearch setItem query recent s =
     (case setItem (updated query recent) of
        None \<Rightarrow>
          (s\<lparr>recentSearches := updated query recent, stored := Some (updated query recent)\<rparr>,
           None)
      | Some e \<Rightarrow> (s\<lparr>recentSearches := updated query recent\<rparr>, Some e))"

text \<open>A storage that takes every write, and one that refuses every write.\<close>

definition storage_ok :: "js_string list \<Rightarrow> js_error option" where
  "storage_ok xs = None"

definition storage_full :: "js_string list \<Rightarrow> js_error option" where
  "storage_full xs = Some StorageWriteFailed"

text \<open>Successive saves, each from the render that the one before it caused.\<close>

definition save_all ::
  "(js_string list \<Rightarrow> js_error option) \<Rightarrow> js_string list \<Rightarrow> SummaryPage \<Rightarrow> SummaryPage" where
  "save_all setItem qs s =
     foldl (\<lambda>s q. fst (saveRecentSearch setItem q (recentSearches s) s)) s qs"

definition summary_error_text :: js_string where
  "summary_error_text =
     ascii ''Could not connect to the backend server. Make sure it'' @
     [0x27] @
     ascii ''s running on localhost:3002''"

text \<open>The object that the \<open>catch\<close> block of \<open>fetchSummary\<close> stores; \<open>timestampNow\<close> is
  \<open>new Date().toISOString()\<close>.\<close>

definition connection_failed :: "js_string \<Rightarrow> js_string \<Rightarrow> json" where
  "connection_failed identifier timestampNow =
     JObj [(ascii ''success'', JBool False),
           (ascii ''identifier'', JStr (trim identifier)),
           (ascii ''summary'', JStr []),
           (ascii ''conversationLength'', JNum (ascii ''0'')),
           (ascii ''attachmentCount'', JNum (ascii ''0'')),
           (ascii ''timestamp'', JStr timestampNow),
           (ascii ''error'', JStr (ascii ''Connection failed'')),
           (ascii ''message'', JStr summary_error_text)]"

text \<open>The call \<open>fetch(`${API_BASE_URL}/summarize/${encoded}`)\<close>.\<close>

definition summary_request :: "js_string \<Rightarrow> http_request" where
  "summary_request encoded =
     \<lparr>request_method = GET,
      url = API_BASE_URL @ ascii ''/summarize/'' @ encoded,
      headers = [], body = None\<rparr>"

text \<open>
  The \<open>try\<close> block of \<open>fetchSummary\<close>: the page it reached, the requests it issued and what
  it threw, if anything. \<open>encodeURIComponent\<close> is the browser's (it throws on a lone
  surrogate); \<open>recent\<close> is the \<open>recentSearches\<close> of the closure.
\<close>

definition fetchSummary_try ::
  "(js_string \<Rightarrow> js_error + js_string) \<Rightarrow> (js_string list \<Rightarrow> js_error option) \<Rightarrow>
     (http_request \<Rightarrow> fetch_result) \<Rightarrow> js_string \<Rightarrow> js_string list \<Rightarrow> SummaryPage \<Rightarrow>
     SummaryPage \<times> http_request list \<times> js_error option" where
  "fetchSummary_try encodeURIComponent setItem fetch identifier recent s =
     (case encodeURIComponent (trim identifier) of
        Inl e \<Rightarrow> (s, [], Some e)
      | Inr encoded \<Rightarrow>
          let req = summary_request encoded
          in (case fetch req of
                NetworkFailure \<Rightarrow> (s, [req], Some FetchRejected)
              | Response status parsed \<Rightarrow>
                  (case parsed of
                     None \<Rightarrow> (s, [req], Some JsonSyntaxError)
                   | Some data \<Rightarrow>
                       (case get_prop data (ascii ''success'') of
                          Inl e \<Rightarrow> (s\<lparr>summaryData := data\<rparr>, [req], Some e)
                        | Inr v \<Rightarrow>
                            if truthy_opt v
                            then (case saveRecentSearch setItem (trim identifier) recent
                                         (s\<lparr>summaryData := data\<rparr>) of
                                    (s3, thrown) \<Rightarrow> (s3, [req], thrown))
                            else (s\<lparr>summaryData := data\<rparr>, [req], None)))))"

text \<open>One whole call of \<open>fetchSummary\<close>: the page it leaves and the requests it issued.\<close>

definition fetchSummary ::
  "(js_string \<Rightarrow> js_error + js_string) \<Rightarrow> (js_string list \<Rightarrow> js_error option) \<Rightarrow>
     (http_request \<Rightarrow> fetch_result) \<Rightarrow> js_string \<Rightarrow> js_string \<Rightarrow> SummaryPage \<Rightarrow>
     SummaryPage \<times> http_request list" where
  "fetchSummary encodeURIComponent setItem fetch timestampNow identifier s =
     (if trim identifier = [] then (s, [])
      else
        (case fetchSummary_try encodeURIComponent setItem fetch identifier (recentSearches s)
                (s\<lparr>SummaryPage.isLoading := True, summaryData := JNull\<rparr>) of
           (s2, reqs, thrown) \<Rightarrow>
             ((case thrown of
                 None \<Rightarrow> s2
               | Some e \<Rightarrow> s2\<lparr>summaryData := connection_failed identifier timestampNow\<rparr>)
                \<lparr>SummaryPage.isLoading := False\<rparr>,
              reqs)))"

text \<open>
  Which part of the results section the conditionals of the markup select: the spinner,
  the summary panel, the "Summary Not Found" panel, or the empty state.
\<close>

datatype results_view =
    LoadingState
  | SummaryGenerated
  | SummaryNotFound
  | EmptyState

definition results :: "SummaryPage \<Rightarrow> results_view" where
  "results s =
     (if SummaryPage.isLoading s then LoadingState
      else if truthy (summaryData s) then
        (if truthy_opt (field (summaryData s) (ascii ''success''))
         then SummaryGenerated
         else SummaryNotFound)
      else EmptyState)"

text \<open>
  What the "Summary Not Found" panel is given to show for the stored value \<open>d\<close>:
  \<open>summaryData.message || `No ticket found with identifier: ${summaryData.identifier}`\<close>.
  The template literal is evaluated only when the message is falsy, and its conversion of
  the identifier can throw.
\<close>

definition error_message :: "json \<Rightarrow> js_error + json" where
  "error_message d =
     (case field d (ascii ''message'') of
        None \<Rightarrow>
          (case ToString_opt (field d (ascii ''identifier'')) of
             Inl e \<Rightarrow> Inl e
           | Inr t \<Rightarrow> Inr (JStr (ascii ''No ticket found with identifier: '' @ t)))
      | Some m \<Rightarrow>
          if truthy m then Inr m
          else
            (case ToString_opt (field d (ascii ''identifier'')) of
               Inl e \<Rightarrow> Inl e
             | Inr t \<Rightarrow> Inr (JStr (ascii ''No ticket found with identifier: '' @ t))))"

text \<open>The page as \<open>useState\<close> initialises it, with no item in \<open>localStorage\<close>.\<close>

definition initial_summary_page :: SummaryPage where
  "initial_summary_page =
     \<lparr>searchQuery = [], summaryData = JNull, SummaryPage.isLoading = False,
      recentSearches = [], stored = None\<rparr>"

text \<open>The payloads of the specification's scenarios C and D.\<close>

definition scenario_C_payload :: json where
  "scenario_C_payload =
     JObj [(ascii ''success'', JBool True),
           (ascii ''ticket'',
              JObj [(ascii ''ticketID'', JNum (ascii ''13000020'')),
                    (ascii ''ticketNumber'', JStr (ascii ''2025090610000020''))]),
           (ascii ''summary'', JStr (ascii ''...'')),
           (ascii ''conversationLength'', JNum (ascii ''4'')),
           (ascii ''attachmentCount'', JNum (ascii ''1'')),
           (ascii ''timestamp'', JStr (ascii ''2025-01-01T00:00:00Z''))]"

definition scenario_D_payload :: json where
  "scenario_D_payload =
     JObj [(ascii ''success'', JBool False),
           (ascii ''message'', JStr (ascii ''No ticket found''))]"

section \<open>The conversation page: what one call of sendMessage does\<close>

lemma reply_sender: "sender (reply now r) = AI"
  by (simp add: reply_def sendMessage_try_def errorMessage_def
      split: fetch_result.splits option.splits sum.splits prod.splits)

lemma reply_not_pending: "\<not> pending (reply now r)"
  by (simp add: reply_def sendMessage_try_def errorMessage_def pending_def
      split: fetch_result.splits option.splits sum.splits prod.splits)

lemma loadingMessage_pending: "pending (loadingMessage now) \<and> sender (loadingMessage now) = AI"
  by (simp add: pending_def loadingMessage_def)

lemma userMessage_turn:
  "sender (userMessage now s) = User \<and> \<not> pending (userMessage now s) \<and>
   content (userMessage now s) = JStr (trim (inputValue s))"
  by (simp add: pending_def userMessage_def)

lemma sendMessage_start_Some:
  "sendMessage_start now s = Some (s1, req) \<longleftrightarrow>
     trim (inputValue s) \<noteq> [] \<and> \<not> ConversationPage.isLoading s \<and>
     s1 = s\<lparr>messages := messages s @ [userMessage now s, loadingMessage now],
            inputValue := [], ConversationPage.isLoading := True\<rparr> \<and>
     req = chat_request (userMessage now s)"
  by (auto simp: sendMessage_start_def sendMessage_call_def)

lemma sendMessage_started:
  assumes "sendMessage_start now s = Some (s1, req)"
  shows "sendMessage fetch now s = (sendMessage_resume now (fetch req) s1, [req])"
    and "messages s1 = messages s @ [userMessage now s, loadingMessage now]"
    and "last (messages s1) = loadingMessage now"
    and "butlast (messages s1) = messages s @ [userMessage now s]"
    and "sendMessage_resume now r s1 =
           s1\<lparr>messages := messages s @ [userMessage now s, reply now r],
              ConversationPage.isLoading := False\<rparr>"
proof -
  show "sendMessage fetch now s = (sendMessage_resume now (fetch req) s1, [req])"
    using assms by (simp add: sendMessage_def)
  show m: "messages s1 = messages s @ [userMessage now s, loadingMessage now]"
    using assms by (simp add: sendMessage_start_Some)
  show "last (messages s1) = loadingMessage now" by (simp add: m)
  show bl: "butlast (messages s1) = messages s @ [userMessage now s]"
    by (simp add: m butlast_append)
  show "sendMessage_resume now r s1 =
           s1\<lparr>messages := messages s @ [userMessage now s, reply now r],
              ConversationPage.isLoading := False\<rparr>"
    by (simp add: sendMessage_resume_def bl)
qed

lemma sendMessage_appends:
  assumes "trim (inputValue s) \<noteq> []" and "\<not> ConversationPage.isLoading s"
  shows "\<exists>s1 req.
           sendMessage_start now s = Some (s1, req) \<and>
           messages s1 = messages s @ [userMessage now s, loadingMessage now] \<and>
           sendMessage fetch now s = (sendMessage_resume now (fetch req) s1, [req]) \<and>
           messages (fst (sendMessage fetch now s)) =
             messages s @ [userMessage now s, reply now (fetch req)]"
proof -
  obtain s1 req where st: "sendMessage_start now s = Some (s1, req)"
    using assms by (simp add: sendMessage_start_Some)
  have "messages (fst (sendMessage fetch now s)) = messages s @ [userMessage now s, reply now (fetch req)]"
    by (simp add: sendMessage_started(1) [OF st] sendMessage_started(5) [OF st])
  then show ?thesis using st sendMessage_started(1,2) [OF st] by blast
qed

section \<open>The conversation page: executions\<close>

lemma sendMessage_call_latest: "sendMessage_call now s s = sendMessage_start now s"
  by (simp add: sendMessage_start_def)

lemma mount_invariant:
  assumes "idle c \<or> in_flight c"
  shows "idle (apply_event c (Mount t)) \<or> in_flight (apply_event c (Mount t))"
  using assms
  by (auto simp: apply_event_def rerender_def idle_def in_flight_def welcome_effect_def pending_def)

lemma typing_invariant:
  assumes "idle c \<or> in_flight c"
  shows "idle (apply_event c (Typing v)) \<or> in_flight (apply_event c (Typing v))"
  using assms
  by (auto simp: apply_event_def rerender_def idle_def in_flight_def handleInputChange_def)

lemma submit_idle:
  assumes "idle c" and "sendMessage_start now (page c) = Some (s1, req)"
  shows "in_flight (rerender (c\<lparr>page := s1, suspended := Suc (suspended c)\<rparr>))"
proof -
  have "filter pending (butlast (messages s1)) = []"
    using assms userMessage_turn [of now "page c"]
    by (simp add: sendMessage_started(4) [OF assms(2)] idle_def)
  moreover have "pending (last (messages s1))"
    using loadingMessage_pending by (simp add: sendMessage_started(3) [OF assms(2)])
  moreover have "messages s1 \<noteq> []" by (simp add: sendMessage_started(2) [OF assms(2)])
  moreover have "ConversationPage.isLoading s1 \<and> inputValue s1 = []"
    using assms(2) by (simp add: sendMessage_start_Some)
  ultimately show ?thesis using assms(1) by (simp add: in_flight_def idle_def rerender_def)
qed

lemma submit_invariant:
  assumes "idle c \<or> in_flight c"
  shows "idle (apply_event c (Submit now)) \<or> in_flight (apply_event c (Submit now))"
proof (cases "idle c")
  case True
  then have r: "rendered c = page c" by (simp add: idle_def)
  show ?thesis
  proof (cases "sendMessage_start now (page c)")
    case None
    then have "apply_event c (Submit now) = c"
      using r by (simp add: apply_event_def rerender_def sendMessage_call_latest)
    then show ?thesis using True by simp
  next
    case (Some a)
    obtain s1 req where a: "a = (s1, req)" by (cases a)
    have "apply_event c (Submit now) = rerender (c\<lparr>page := s1, suspended := Suc (suspended c)\<rparr>)"
      using r Some a by (simp add: apply_event_def sendMessage_call_latest)
    then show ?thesis using submit_idle [OF True] Some a by simp
  qed
next
  case False
  then have f: "in_flight c" using assms by blast
  then have "sendMessage_call now (rendered c) (page c) = None"
    by (simp add: in_flight_def sendMessage_call_def)
  then have "apply_event c (Submit now) = c"
    using f by (simp add: apply_event_def rerender_def in_flight_def)
  then show ?thesis using f by simp
qed

lemma settle_invariant:
  assumes "idle c \<or> in_flight c"
  shows "idle (apply_event c (Settle now r)) \<or> in_flight (apply_event c (Settle now r))"
  using assms reply_not_pending [of now r]
  by (auto simp: apply_event_def rerender_def idle_def in_flight_def sendMessage_resume_def)

lemma apply_event_invariant:
  assumes "idle c \<or> in_flight c"
  shows "idle (apply_event c e) \<or> in_flight (apply_event c e)"
proof (cases e)
  case (Mount t)
  then show ?thesis using mount_invariant [OF assms] by simp
next
  case (Typing v)
  then show ?thesis using typing_invariant [OF assms] by simp
next
  case (Submit now)
  then show ?thesis using submit_invariant [OF assms] by simp
next
  case (Settle now r)
  then show ?thesis using settle_invariant [OF assms] by simp
qed

lemma foldl_invariant:
  "idle c \<or> in_flight c \<Longrightarrow> idle (foldl apply_event c es) \<or> in_flight (foldl apply_event c es)"
proof (induction es arbitrary: c)
  case Nil
  then show ?case by simp
next
  case (Cons e es)
  then show ?case using apply_event_invariant by simp
qed

lemma initial_idle: "idle initial_session"
  by (simp add: idle_def initial_session_def)

lemma run_invariant: "idle (run es) \<or> in_flight (run es)"
  unfolding run_def using foldl_invariant initial_idle by blast

lemma run_busy_input_cleared:
  "ConversationPage.isLoading (page (run es)) \<Longrightarrow> inputValue (page (run es)) = []"
  using run_invariant [of es] by (auto simp: idle_def in_flight_def)

lemma run_input_not_busy:
  "trim (inputValue (page (run es))) \<noteq> [] \<Longrightarrow> \<not> ConversationPage.isLoading (page (run es))"
  using run_busy_input_cleared [of es] by (auto simp: trim_def)

lemma idle_pending: "idle c \<Longrightarrow> length (filter pending (messages (page c))) = 0"
  by (simp add: idle_def)

lemma in_flight_pending:
  assumes "in_flight c"
  shows "length (filter pending (messages (page c))) = 1"
proof -
  have ne: "messages (page c) \<noteq> []" using assms by (simp add: in_flight_def)
  have "filter pending (messages (page c)) =
          filter pending (butlast (messages (page c)) @ [last (messages (page c))])"
    using ne by simp
  also have "\<dots> = [last (messages (page c))]"
    using assms by (simp add: in_flight_def del: append_butlast_last_id)
  finally show ?thesis by simp
qed

text \<open>
  When React renders after every event, the transcript holds at most one pending turn at
  every point of the execution.
\<close>

lemma run_at_most_one_pending:
  "length (filter pending (messages (page (run es)))) \<le> 1"
  using run_invariant [of es] idle_pending in_flight_pending by fastforce




text \<open>
  C2. In every state that an execution of the page reaches, a call of \<open>sendMessage\<close> with
  an input whose trimmed form is not empty appends exactly two turns, whatever the backend
  does: the user turn with the trimmed text, and an assistant turn that is pending after
  the first phase and resolved at the end. (The input is cleared and locked while a send
  is in flight, so a non-empty input finds the busy flag down.)
\<close>

theorem submit_appends_two_turns:
  assumes "s = page (run es)" and "trim (inputValue s) \<noteq> []"
  shows "\<exists>s1 req.
           sendMessage_start now s = Some (s1, req) \<and>
           messages s1 = messages s @ [userMessage now s, loadingMessage now] \<and>
           pending (loadingMessage now) \<and> sender (loadingMessage now) = AI \<and>
           sendMessage fetch now s = (sendMessage_resume now (fetch req) s1, [req]) \<and>
           messages (fst (sendMessage fetch now s)) =
             messages s @ [userMessage now s, reply now (fetch req)] \<and>
           sender (userMessage now s) = User \<and> \<not> pending (userMessage now s) \<and>
           content (userMessage now s) = JStr (trim (inputValue s)) \<and>
           sender (reply now (fetch req)) = AI \<and> \<not> pending (reply now (fetch req)) \<and>
           length (messages (fst (sendMessage fetch now s))) = length (messages s) + 2"
proof -
  have idle: "\<not> ConversationPage.isLoading s"
    using assms run_input_not_busy [of es] by simp
  obtain s1 req where st: "sendMessage_start now s = Some (s1, req)"
    and m1: "messages s1 = messages s @ [userMessage now s, loadingMessage now]"
    and whole: "sendMessage fetch now s = (sendMessage_resume now (fetch req) s1, [req])"
    and m2: "messages (fst (sendMessage fetch now s)) =
               messages s @ [userMessage now s, reply now (fetch req)]"
    using sendMessage_appends [OF assms(2) idle, of now fetch] by blast
  have len: "length (messages (fst (sendMessage fetch now s))) = length (messages s) + 2"
    by (simp add: m2)
  show ?thesis
    using st m1 whole m2 len loadingMessage_pending [of now] userMessage_turn [of now s]
      reply_sender [of now "fetch req"] reply_not_pending [of now "fetch req"]
    by blast
qed

theorem submit_appends_two_turns_witness:
  "composing (ascii ''hello'') = page (run [Typing (ascii ''hello'')]) \<and>
   trim (inputValue (composing (ascii ''hello''))) \<noteq> [] \<and>
   length (messages (fst (sendMessage (answering NetworkFailure) ((+) 1000)
                            (composing (ascii ''hello''))))) = 2"
proof -
  have h0: "composing (ascii ''hello'') = page (run [Typing (ascii ''hello'')])"
    by (simp add: composing_def run_def initial_session_def handleInputChange_def
        apply_event_def rerender_def)
  have h1: "trim (inputValue (composing (ascii ''hello''))) \<noteq> []"
    by (simp add: composing_def trim_def is_whitespace_def ascii_def)
  from submit_appends_two_turns [OF h0 h1, of "(+) 1000" "answering NetworkFailure"]
  have "length (messages (fst (sendMessage (answering NetworkFailure) ((+) 1000)
                  (composing (ascii ''hello''))))) = length (messages (composing (ascii ''hello''))) + 2"
    by blast
  then have l: "length (messages (fst (sendMessage (answering NetworkFailure) ((+) 1000)
                  (composing (ascii ''hello''))))) = 2"
    by (simp add: composing_def)
  show ?thesis using h0 h1 l by blast
qed

section \<open>The conversation page: reconciling the placeholder\<close>

lemma reply_json:
  assumes "ok status" and "data \<noteq> JNull"
  shows "reply now (Response status (Some data)) =
           \<lparr>id' = Number_toString (time_value (now 4) + 2),
            content = js_or (field data (ascii ''response'')) (JStr fallback_text),
            sender = AI, timestamp = time_value (now 5), Message.isLoading = None\<rparr>"
  using assms by (simp add: reply_def sendMessage_try_def get_prop_def)

lemma sendMessage_try_failure:
  assumes "r = NetworkFailure \<or>
           (\<exists>status parsed. r = Response status parsed \<and> (\<not> ok status \<or> parsed = None))"
  shows "\<exists>e. sendMessage_try now r = Inl (e, 4)"
  using assms by (auto simp: sendMessage_try_def split: option.splits)

lemma reply_failure:
  assumes "r = NetworkFailure \<or>
           (\<exists>status parsed. r = Response status parsed \<and> (\<not> ok status \<or> parsed = None))"
  shows "reply now r = errorMessage now 4"
  using sendMessage_try_failure [OF assms, of now] by (auto simp: reply_def)

lemma fallback_text_nonempty: "fallback_text \<noteq> []"
  by (simp add: fallback_text_def ascii_def)

lemma connection_error_text_differs: "connection_error_text \<noteq> fallback_text"
  by (simp add: connection_error_text_def fallback_text_def ascii_def)

lemma composing_hello_started:
  "sendMessage_start ((+) 1000) (composing (ascii ''hello'')) =
     Some (\<lparr>messages = [userMessage ((+) 1000) (composing (ascii ''hello'')), loadingMessage ((+) 1000)],
            inputValue = [], ConversationPage.isLoading = True\<rparr>,
           chat_request (userMessage ((+) 1000) (composing (ascii ''hello''))))"
proof -
  have "trim (inputValue (composing (ascii ''hello''))) \<noteq> []"
    by (simp add: composing_def trim_def is_whitespace_def ascii_def)
  then show ?thesis by (simp add: sendMessage_start_def sendMessage_call_def) (simp add: composing_def)
qed

text \<open>
  C3, as amended. When a call of \<open>sendMessage\<close> reaches the backend and the backend answers
  with a 2xx status and a JSON value other than \<open>null\<close>, the pending turn, which is the last
  turn, is replaced in the same position by an assistant turn that is not pending. Its
  content is the payload's \<open>response\<close> field when that field is present and truthy, and
  the fixed fallback text when the field is absent or falsy (the empty string, for one).
\<close>

theorem json_reply_replaces_placeholder:
  assumes "sendMessage_start now s = Some (s1, req)"
    and "fetch req = Response status (Some data)" and "ok status" and "data \<noteq> JNull"
  shows "pending (last (messages s1)) \<and>
         messages (fst (sendMessage fetch now s)) = butlast (messages s1) @ [reply now (fetch req)] \<and>
         length (messages (fst (sendMessage fetch now s))) = length (messages s1) \<and>
         last (messages (fst (sendMessage fetch now s))) = reply now (fetch req) \<and>
         sender (reply now (fetch req)) = AI \<and>
         \<not> pending (reply now (fetch req)) \<and>
         content (reply now (fetch req)) =
           (case field data (ascii ''response'') of
              None \<Rightarrow> JStr fallback_text
            | Some v \<Rightarrow> if truthy v then v else JStr fallback_text)"
proof -
  note st = sendMessage_started [OF assms(1)]
  have p: "pending (last (messages s1))"
    using loadingMessage_pending [of now] by (simp add: st(3))
  have m: "messages (fst (sendMessage fetch now s)) = butlast (messages s1) @ [reply now (fetch req)]"
    by (simp add: st(1) sendMessage_resume_def)
  have len: "length (messages (fst (sendMessage fetch now s))) = length (messages s1)"
    by (simp add: m st(2))
  have lst: "last (messages (fst (sendMessage fetch now s))) = reply now (fetch req)"
    by (simp add: m)
  have c: "content (reply now (fetch req)) =
           (case field data (ascii ''response'') of
              None \<Rightarrow> JStr fallback_text
            | Some v \<Rightarrow> if truthy v then v else JStr fallback_text)"
    using reply_json [OF assms(3,4), of now] by (simp add: assms(2) js_or_def)
  show ?thesis
    using p m len lst c reply_sender [of now "fetch req"] reply_not_pending [of now "fetch req"]
    by blast
qed

theorem json_reply_replaces_placeholder_witness:
  "sendMessage_start ((+) 1000) (composing (ascii ''hello'')) =
     Some (\<lparr>messages = [userMessage ((+) 1000) (composing (ascii ''hello'')), loadingMessage ((+) 1000)],
            inputValue = [], ConversationPage.isLoading = True\<rparr>,
           chat_request (userMessage ((+) 1000) (composing (ascii ''hello'')))) \<and>
   ok 200 \<and>
   JObj [(ascii ''response'', JStr (ascii ''Here are your tickets...''))] \<noteq> JNull \<and>
   content (last (messages (fst (sendMessage
       (answering (Response 200 (Some (JObj [(ascii ''response'', JStr (ascii ''Here are your tickets...''))]))))
       ((+) 1000) (composing (ascii ''hello''))))))
     = JStr (ascii ''Here are your tickets...'')"
proof -
  let ?d = "JObj [(ascii ''response'', JStr (ascii ''Here are your tickets...''))]"
  let ?req = "chat_request (userMessage ((+) 1000) (composing (ascii ''hello'')))"
  have h2: "answering (Response 200 (Some ?d)) ?req = Response 200 (Some ?d)"
    by (simp add: answering_def)
  have h3: "ok 200" by (simp add: ok_def)
  have h4: "?d \<noteq> JNull" by simp
  have t: "truthy (JStr (ascii ''Here are your tickets...''))" by (simp add: ascii_def)
  note c = json_reply_replaces_placeholder
      [where fetch = "answering (Response 200 (Some ?d))", OF composing_hello_started h2 h3 h4]
  have "content (last (messages (fst (sendMessage (answering (Response 200 (Some ?d))) ((+) 1000)
                  (composing (ascii ''hello''))))))
          = (case field ?d (ascii ''response'') of
               None \<Rightarrow> JStr fallback_text
             | Some v \<Rightarrow> if truthy v then v else JStr fallback_text)"
    using c by simp
  then have "content (last (messages (fst (sendMessage (answering (Response 200 (Some ?d))) ((+) 1000)
                  (composing (ascii ''hello''))))))
          = JStr (ascii ''Here are your tickets...'')"
    using t by simp
  then show ?thesis using composing_hello_started h3 h4 by blast
qed

text \<open>
  C3 as stated fails. A payload \<open>{response: ""}\<close> has the field, and the content is the
  fallback text, not the field. A payload \<open>null\<close> is well-formed JSON, and the content is
  the connection-error text: reading \<open>data.response\<close> throws into the \<open>catch\<close> block.
\<close>

theorem json_reply_counterexample:
  "ok 200 \<and>
   field (JObj [(ascii ''response'', JStr [])]) (ascii ''response'') = Some (JStr []) \<and>
   content (last (messages (fst (sendMessage
       (answering (Response 200 (Some (JObj [(ascii ''response'', JStr [])]))))
       ((+) 1000) (composing (ascii ''hello''))))))
     = JStr fallback_text \<and>
   JStr fallback_text \<noteq> JStr [] \<and>
   content (last (messages (fst (sendMessage
       (answering (Response 200 (Some JNull)))
       ((+) 1000) (composing (ascii ''hello''))))))
     = JStr connection_error_text \<and>
   JStr connection_error_text \<noteq> JStr fallback_text"
proof -
  note st = sendMessage_started [OF composing_hello_started]
  have a: "content (last (messages (fst (sendMessage
       (answering (Response 200 (Some (JObj [(ascii ''response'', JStr [])]))))
       ((+) 1000) (composing (ascii ''hello'')))))) = JStr fallback_text"
    by (simp add: st(1) sendMessage_resume_def reply_def
        sendMessage_try_def answering_def ok_def get_prop_def js_or_def)
  have b: "content (last (messages (fst (sendMessage
       (answering (Response 200 (Some JNull)))
       ((+) 1000) (composing (ascii ''hello'')))))) = JStr connection_error_text"
    by (simp add: st(1) sendMessage_resume_def reply_def
        sendMessage_try_def answering_def ok_def get_prop_def errorMessage_def)
  show ?thesis using a b fallback_text_nonempty connection_error_text_differs
    by (simp add: ok_def)
qed

text \<open>
  C4. When a call of \<open>sendMessage\<close> reaches the backend and the backend call fails (\<open>fetch\<close>
  rejects, the status is not 2xx, or the body is not JSON), what is thrown inside the
  \<open>try\<close> block is caught: the call ends with the pending turn replaced by an assistant turn
  that is not pending and holds the fixed connection-error text, with the busy flag
  cleared and no pending turn added to the transcript.
\<close>

theorem backend_failure_recovered:
  assumes "sendMessage_start now s = Some (s1, req)"
    and "fetch req = NetworkFailure \<or>
         (\<exists>status parsed. fetch req = Response status parsed \<and> (\<not> ok status \<or> parsed = None))"
  shows "(\<exists>e. sendMessage_try now (fetch req) = Inl (e, 4)) \<and>
         pending (last (messages s1)) \<and>
         sendMessage fetch now s =
           (s1\<lparr>messages := butlast (messages s1) @ [errorMessage now 4],
               ConversationPage.isLoading := False\<rparr>, [req]) \<and>
         messages (fst (sendMessage fetch now s)) =
           messages s @ [userMessage now s, errorMessage now 4] \<and>
         last (messages (fst (sendMessage fetch now s))) = errorMessage now 4 \<and>
         content (errorMessage now 4) = JStr connection_error_text \<and>
         sender (errorMessage now 4) = AI \<and>
         \<not> pending (errorMessage now 4) \<and>
         filter pending (messages (fst (sendMessage fetch now s))) = filter pending (messages s) \<and>
         \<not> ConversationPage.isLoading (fst (sendMessage fetch now s))"
proof -
  note st = sendMessage_started [OF assms(1)]
  have thrown: "\<exists>e. sendMessage_try now (fetch req) = Inl (e, 4)"
    using assms(2) by (rule sendMessage_try_failure)
  have r: "reply now (fetch req) = errorMessage now 4"
    using assms(2) by (rule reply_failure)
  have p: "pending (last (messages s1))"
    using loadingMessage_pending [of now] by (simp add: st(3))
  have whole: "sendMessage fetch now s =
           (s1\<lparr>messages := butlast (messages s1) @ [errorMessage now 4],
               ConversationPage.isLoading := False\<rparr>, [req])"
    by (simp add: st(1) sendMessage_resume_def r)
  have m: "messages (fst (sendMessage fetch now s)) =
           messages s @ [userMessage now s, errorMessage now 4]"
    by (simp add: whole st(4))
  have turn: "content (errorMessage now 4) = JStr connection_error_text \<and>
         sender (errorMessage now 4) = AI \<and> \<not> pending (errorMessage now 4)"
    by (simp add: errorMessage_def pending_def)
  have lst: "last (messages (fst (sendMessage fetch now s))) = errorMessage now 4"
    by (simp add: m)
  have flt: "filter pending (messages (fst (sendMessage fetch now s))) = filter pending (messages s)"
    using turn userMessage_turn [of now s] by (simp add: m)
  have idle: "\<not> ConversationPage.isLoading (fst (sendMessage fetch now s))"
    by (simp add: whole)
  show ?thesis using thrown p whole m turn lst flt idle by blast
qed

theorem backend_failure_recovered_witness:
  "sendMessage_start ((+) 1000) (composing (ascii ''hello'')) =
     Some (\<lparr>messages = [userMessage ((+) 1000) (composing (ascii ''hello'')), loadingMessage ((+) 1000)],
            inputValue = [], ConversationPage.isLoading = True\<rparr>,
           chat_request (userMessage ((+) 1000) (composing (ascii ''hello'')))) \<and>
   answering NetworkFailure (chat_request (userMessage ((+) 1000) (composing (ascii ''hello''))))
     = NetworkFailure \<and>
   \<not> ok 500 \<and>
   content (last (messages (fst (sendMessage (answering NetworkFailure) ((+) 1000)
                                   (composing (ascii ''hello''))))))
     = JStr connection_error_text \<and>
   content (last (messages (fst (sendMessage (answering (Response 500 (Some (JObj [])))) ((+) 1000)
                                   (composing (ascii ''hello''))))))
     = JStr connection_error_text \<and>
   content (last (messages (fst (sendMessage (answering (Response 200 None)) ((+) 1000)
                                   (composing (ascii ''hello''))))))
     = JStr connection_error_text"
proof -
  let ?req = "chat_request (userMessage ((+) 1000) (composing (ascii ''hello'')))"
  have h1: "answering NetworkFailure ?req = NetworkFailure"
    by (simp add: answering_def)
  have n: "\<not> ok 500" by (simp add: ok_def)
  have h2: "answering (Response 500 (Some (JObj []))) ?req = NetworkFailure \<or>
            (\<exists>status parsed. answering (Response 500 (Some (JObj []))) ?req = Response status parsed \<and>
               (\<not> ok status \<or> parsed = None))"
    using n by (simp add: answering_def)
  have h3: "answering (Response 200 None) ?req = NetworkFailure \<or>
            (\<exists>status parsed. answering (Response 200 None) ?req = Response status parsed \<and>
               (\<not> ok status \<or> parsed = None))"
    by (simp add: answering_def)
  have a: "content (last (messages (fst (sendMessage (answering NetworkFailure) ((+) 1000)
                                   (composing (ascii ''hello''))))))
     = JStr connection_error_text"
    using backend_failure_recovered
      [where fetch = "answering NetworkFailure", OF composing_hello_started disjI1 [OF h1]]
    by simp
  have b: "content (last (messages (fst (sendMessage (answering (Response 500 (Some (JObj [])))) ((+) 1000)
                                   (composing (ascii ''hello''))))))
     = JStr connection_error_text"
    using backend_failure_recovered
      [where fetch = "answering (Response 500 (Some (JObj [])))", OF composing_hello_started h2]
    by simp
  have c: "content (last (messages (fst (sendMessage (answering (Response 200 None)) ((+) 1000)
                                   (composing (ascii ''hello''))))))
     = JStr connection_error_text"
    using backend_failure_recovered
      [where fetch = "answering (Response 200 None)", OF composing_hello_started h3]
    by simp
  show ?thesis using composing_hello_started h1 n a b c by blast
qed

text \<open>
  C8. When the trimmed input is empty, \<open>sendMessage\<close> and \<open>fetchSummary\<close> change nothing
  and issue no request.
\<close>

theorem empty_input_is_noop:
  "(trim (inputValue s) = [] \<longrightarrow> sendMessage fetch now s = (s, [])) \<and>
   (trim identifier = [] \<longrightarrow>
      fetchSummary encodeURIComponent setItem fetch' timestampNow identifier p = (p, []))"
  by (simp add: sendMessage_def sendMessage_start_def sendMessage_call_def fetchSummary_def)

theorem empty_input_is_noop_witness:
  "trim (inputValue (composing [0x20, 0x9, 0xA])) = [] \<and>
   trim (ascii ''   '') = [] \<and>
   sendMessage (answering NetworkFailure) ((+) 1000) (composing [0x20, 0x9, 0xA])
     = (composing [0x20, 0x9, 0xA], []) \<and>
   fetchSummary Inr storage_ok (answering NetworkFailure) (ascii ''2025-01-01T00:00:05Z'')
      (ascii ''   '') initial_summary_page
     = (initial_summary_page, [])"
proof -
  have h1: "trim (inputValue (composing [0x20, 0x9, 0xA])) = []"
    by (simp add: composing_def trim_def is_whitespace_def)
  have h2: "trim (ascii ''   '') = []"
    by (simp add: trim_def is_whitespace_def ascii_def)
  show ?thesis
    using h1 h2
      empty_input_is_noop [of "composing [0x20, 0x9, 0xA]"
        "answering NetworkFailure" "(+) 1000" "ascii ''   ''" Inr storage_ok
        "answering NetworkFailure" "ascii ''2025-01-01T00:00:05Z''" initial_summary_page]
    by blast
qed

section \<open>The recent searches\<close>

lemma updated_hd: "hd (updated q log) = q"
  by (simp add: updated_def)

lemma updated_length: "length (updated q log) \<le> 5"
  by (simp add: updated_def)

lemma updated_tl: "tl (updated q log) = take 4 (filter (\<lambda>s. s \<noteq> q) log)"
  by (simp add: updated_def)

lemma updated_Cons: "updated q log = q # take 4 (filter (\<lambda>s. s \<noteq> q) log)"
  by (simp add: updated_def)

lemma updated_count: "count_list (updated q log) q = 1"
proof -
  have "q \<notin> set (take 4 (filter (\<lambda>s. s \<noteq> q) log))"
    using set_take_subset [of 4 "filter (\<lambda>s. s \<noteq> q) log"] by auto
  then show ?thesis by (simp add: updated_Cons count_list_0_iff)
qed

lemma updated_distinct: "distinct log \<Longrightarrow> distinct (updated q log)"
proof -
  assume d: "distinct log"
  have n: "q \<notin> set (take 4 (filter (\<lambda>s. s \<noteq> q) log))"
    using set_take_subset [of 4 "filter (\<lambda>s. s \<noteq> q) log"] by auto
  have "distinct (take 4 (filter (\<lambda>s. s \<noteq> q) log))" using d by simp
  then show ?thesis using n by (simp add: updated_Cons)
qed

lemma updated_present:
  assumes "distinct log" and "length log \<le> 5" and "q \<in> set log"
  shows "updated q log = q # filter (\<lambda>s. s \<noteq> q) log"
proof -
  have "length (filter (\<lambda>s. s \<noteq> q) log) < length log"
    using assms(3) by (simp add: length_filter_less)
  then have "length (filter (\<lambda>s. s \<noteq> q) log) \<le> 4" using assms(2) by simp
  then show ?thesis by (simp add: updated_Cons)
qed

lemma recent_saveRecentSearch:
  "recentSearches (fst (saveRecentSearch setItem q log s)) = updated q log"
  by (simp add: saveRecentSearch_def split: option.splits)

lemma stored_saveRecentSearch:
  "stored (fst (saveRecentSearch setItem q log s)) =
     (case setItem (updated q log) of None \<Rightarrow> Some (updated q log) | Some e \<Rightarrow> stored s)"
  by (simp add: saveRecentSearch_def split: option.splits)

lemma save_all_Nil: "save_all setItem [] s = s"
  by (simp add: save_all_def)

lemma save_all_snoc:
  "save_all setItem (qs @ [q]) s =
     fst (saveRecentSearch setItem q (recentSearches (save_all setItem qs s)) (save_all setItem qs s))"
  by (simp add: save_all_def)

lemma save_all_invariant:
  "distinct (recentSearches s) \<and> length (recentSearches s) \<le> 5 \<Longrightarrow>
   distinct (recentSearches (save_all setItem qs s)) \<and>
   length (recentSearches (save_all setItem qs s)) \<le> 5"
proof (induction qs rule: rev_induct)
  case Nil
  then show ?case by (simp add: save_all_Nil)
next
  case (snoc q qs)
  then show ?case
    by (simp add: save_all_snoc recent_saveRecentSearch updated_distinct updated_length)
qed

lemma six_distinct:
  assumes "distinct [a, b, c, d, e, f]" and "recentSearches s = []"
  shows "recentSearches (save_all setItem [a, b, c, d, e, f] s) = [f, e, d, c, b]"
proof -
  have "save_all setItem [a, b, c, d, e, f] s = save_all setItem ([a, b, c, d, e] @ [f]) s" by simp
  also have "recentSearches \<dots> = updated f (recentSearches (save_all setItem [a, b, c, d, e] s))"
    by (simp only: save_all_snoc recent_saveRecentSearch)
  also have "save_all setItem [a, b, c, d, e] s = save_all setItem ([a, b, c, d] @ [e]) s" by simp
  also have "recentSearches \<dots> = updated e (recentSearches (save_all setItem [a, b, c, d] s))"
    by (simp only: save_all_snoc recent_saveRecentSearch)
  also have "save_all setItem [a, b, c, d] s = save_all setItem ([a, b, c] @ [d]) s" by simp
  also have "recentSearches \<dots> = updated d (recentSearches (save_all setItem [a, b, c] s))"
    by (simp only: save_all_snoc recent_saveRecentSearch)
  also have "save_all setItem [a, b, c] s = save_all setItem ([a, b] @ [c]) s" by simp
  also have "recentSearches \<dots> = updated c (recentSearches (save_all setItem [a, b] s))"
    by (simp only: save_all_snoc recent_saveRecentSearch)
  also have "save_all setItem [a, b] s = save_all setItem ([a] @ [b]) s" by simp
  also have "recentSearches \<dots> = updated b (recentSearches (save_all setItem [a] s))"
    by (simp only: save_all_snoc recent_saveRecentSearch)
  also have "save_all setItem [a] s = save_all setItem ([] @ [a]) s" by simp
  also have "recentSearches \<dots> = updated a (recentSearches (save_all setItem [] s))"
    by (simp only: save_all_snoc recent_saveRecentSearch)
  finally show ?thesis using assms by (simp add: save_all_Nil updated_def)
qed

text \<open>
  C7. \<open>updated q log\<close> is the log after \<open>q\<close> is inserted. Whatever the log, \<open>q\<close> comes
  first and occurs once, the rest is the start of the old log without \<open>q\<close>, in its order,
  and there are at most 5 entries; a log without duplicates stays so. When \<open>q\<close> was already
  in a log of at most 5 distinct entries, no other entry is lost. \<open>saveRecentSearch\<close> puts
  that log in the state, and in \<open>localStorage\<close> when the write is taken. Six distinct
  identifiers saved one after the other into the empty log leave the last five, most
  recent first. Any run of saves from a log of at most 5 distinct entries (the empty one
  at startup) ends in such a log.
\<close>

theorem recent_search_log:
  "hd (updated q log) = q \<and>
   count_list (updated q log) q = 1 \<and>
   tl (updated q log) = take 4 (filter (\<lambda>s. s \<noteq> q) log) \<and>
   length (updated q log) \<le> 5 \<and>
   (distinct log \<longrightarrow> distinct (updated q log)) \<and>
   (distinct log \<and> length log \<le> 5 \<and> q \<in> set log \<longrightarrow>
      updated q log = q # filter (\<lambda>s. s \<noteq> q) log) \<and>
   recentSearches (fst (saveRecentSearch setItem q log s)) = updated q log \<and>
   stored (fst (saveRecentSearch setItem q log s)) =
     (case setItem (updated q log) of None \<Rightarrow> Some (updated q log) | Some e \<Rightarrow> stored s) \<and>
   (distinct [a, b, c, d, e, f] \<and> recentSearches s = [] \<longrightarrow>
      recentSearches (save_all setItem [a, b, c, d, e, f] s) = [f, e, d, c, b]) \<and>
   (distinct (recentSearches s) \<and> length (recentSearches s) \<le> 5 \<longrightarrow>
      distinct (recentSearches (save_all setItem qs s)) \<and>
      length (recentSearches (save_all setItem qs s)) \<le> 5)"
  using updated_hd [of q log] updated_count [of q log] updated_tl [of q log] updated_length [of q log]
    updated_distinct [of log q] updated_present [of log q] six_distinct [of a b c d e f s setItem]
    save_all_invariant [of s setItem qs] recent_saveRecentSearch [of setItem q log s]
    stored_saveRecentSearch [of setItem q log s]
  by simp

theorem recent_search_log_witness:
  "distinct [[0x62], [0x61 :: 16 word]] \<and> length [[0x62], [0x61 :: 16 word]] \<le> 5 \<and>
   [0x61] \<in> set [[0x62], [0x61 :: 16 word]] \<and>
   updated [0x61] [[0x62], [0x61]] = [[0x61], [0x62]] \<and>
   distinct [[0x31], [0x32], [0x33], [0x34], [0x35], [0x36 :: 16 word]] \<and>
   recentSearches initial_summary_page = [] \<and>
   recentSearches (save_all storage_ok [[0x31], [0x32], [0x33], [0x34], [0x35], [0x36]]
                     initial_summary_page)
     = [[0x36], [0x35], [0x34], [0x33], [0x32]]"
proof -
  have h1: "distinct [[0x62], [0x61 :: 16 word]] \<and> length [[0x62], [0x61 :: 16 word]] \<le> 5 \<and>
            [0x61] \<in> set [[0x62], [0x61 :: 16 word]]" by simp
  have h2: "distinct [[0x31], [0x32], [0x33], [0x34], [0x35], [0x36 :: 16 word]] \<and>
            recentSearches initial_summary_page = []"
    by (simp add: initial_summary_page_def)
  note c = recent_search_log [of "[0x61]" "[[0x62], [0x61]]" storage_ok initial_summary_page
      "[0x31]" "[0x32]" "[0x33]" "[0x34]" "[0x35]" "[0x36]" "[]"]
  have r1: "updated [0x61] [[0x62], [0x61]] = [0x61] # filter (\<lambda>s. s \<noteq> [0x61]) [[0x62], [0x61 :: 16 word]]"
    using c h1 by blast
  have r2: "recentSearches (save_all storage_ok [[0x31], [0x32], [0x33], [0x34], [0x35], [0x36]]
                initial_summary_page)
     = [[0x36], [0x35], [0x34], [0x33], [0x32]]"
    using c h2 by blast
  show ?thesis using h1 h2 r1 r2 by simp
qed

section \<open>The summary page: what one call of fetchSummary does\<close>

lemma field_Some_truthy: "field data k = Some v \<Longrightarrow> truthy data \<and> data \<noteq> JNull"
  by (cases data) simp_all

lemma truthy_opt_field: "truthy_opt (field data k) \<Longrightarrow> truthy data \<and> data \<noteq> JNull"
  by (cases data) (simp_all add: truthy_opt_def)

lemma fetchSummary_json:
  assumes "trim identifier \<noteq> []" and "encodeURIComponent (trim identifier) = Inr u"
    and "fetch (summary_request u) = Response status (Some data)" and "data \<noteq> JNull"
  shows "fetchSummary encodeURIComponent setItem fetch timestampNow identifier s =
           (if truthy_opt (field data (ascii ''success''))
            then (case setItem (updated (trim identifier) (recentSearches s)) of
                    None \<Rightarrow>
                      s\<lparr>summaryData := data, SummaryPage.isLoading := False,
                        recentSearches := updated (trim identifier) (recentSearches s),
                        stored := Some (updated (trim identifier) (recentSearches s))\<rparr>
                  | Some e \<Rightarrow>
                      s\<lparr>summaryData := connection_failed identifier timestampNow,
                        SummaryPage.isLoading := False,
                        recentSearches := updated (trim identifier) (recentSearches s)\<rparr>)
            else s\<lparr>summaryData := data, SummaryPage.isLoading := False\<rparr>,
            [summary_request u])"
  using assms
  by (simp add: fetchSummary_def fetchSummary_try_def get_prop_def saveRecentSearch_def
      split: option.splits)

lemma fetchSummary_thrown:
  assumes "trim identifier \<noteq> []" and "encodeURIComponent (trim identifier) = Inr u"
    and "fetch (summary_request u) = NetworkFailure \<or>
         (\<exists>status. fetch (summary_request u) = Response status None) \<or>
         (\<exists>status. fetch (summary_request u) = Response status (Some JNull))"
  shows "fetchSummary encodeURIComponent setItem fetch timestampNow identifier s =
           (s\<lparr>summaryData := connection_failed identifier timestampNow,
              SummaryPage.isLoading := False\<rparr>,
            [summary_request u])"
  using assms
  by (auto simp: fetchSummary_def fetchSummary_try_def get_prop_def)

lemma fetchSummary_URIError:
  assumes "trim identifier \<noteq> []" and "encodeURIComponent (trim identifier) = Inl e"
  shows "fetchSummary encodeURIComponent setItem fetch timestampNow identifier s =
           (s\<lparr>summaryData := connection_failed identifier timestampNow,
              SummaryPage.isLoading := False\<rparr>, [])"
  using assms
  by (auto simp: fetchSummary_def fetchSummary_try_def get_prop_def)

lemma connection_failed_fields:
  "map (field (connection_failed identifier timestampNow))
       [ascii ''success'', ascii ''identifier'', ascii ''summary'', ascii ''conversationLength'',
        ascii ''attachmentCount'', ascii ''timestamp'', ascii ''error'', ascii ''message'',
        ascii ''ticket'']
   = [Some (JBool False), Some (JStr (trim identifier)), Some (JStr []),
      Some (JNum (ascii ''0'')), Some (JNum (ascii ''0'')), Some (JStr timestampNow),
      Some (JStr (ascii ''Connection failed'')), Some (JStr summary_error_text), None]"
  by (simp add: connection_failed_def ascii_def)

lemma summary_error_text_nonempty: "summary_error_text \<noteq> []"
  by (simp add: summary_error_text_def ascii_def)

lemma summary_error_text_names_backend:
  "summary_error_text =
     (ascii ''Could not connect to the backend server. Make sure it'' @ [0x27] @ ascii ''s running on '')
     @ ascii ''localhost:3002''"
  by (simp add: summary_error_text_def ascii_def)

lemma results_connection_failed:
  "results (s\<lparr>summaryData := connection_failed identifier timestampNow,
              SummaryPage.isLoading := False\<rparr>) = SummaryNotFound"
proof -
  have f: "field (connection_failed identifier timestampNow) (ascii ''success'') = Some (JBool False)"
    using connection_failed_fields [of "identifier" timestampNow] by simp
  have t: "truthy (connection_failed identifier timestampNow)" by (simp add: connection_failed_def)
  show ?thesis by (simp add: results_def f t truthy_opt_def)
qed

lemma error_message_connection_failed:
  "error_message (connection_failed identifier timestampNow) = Inr (JStr summary_error_text)"
proof -
  have f: "field (connection_failed identifier timestampNow) (ascii ''message'') =
             Some (JStr summary_error_text)"
    using connection_failed_fields [of "identifier" timestampNow] by simp
  show ?thesis using summary_error_text_nonempty by (simp add: error_message_def f)
qed

lemma error_message_cases:
  "(field d (ascii ''message'') = Some m \<and> truthy m \<longrightarrow> error_message d = Inr m) \<and>
   (truthy_opt (field d (ascii ''message'')) = False \<and> field d (ascii ''identifier'') = None \<longrightarrow>
      error_message d = Inr (JStr (ascii ''No ticket found with identifier: '' @ ascii ''undefined''))) \<and>
   (truthy_opt (field d (ascii ''message'')) = False \<and> field d (ascii ''identifier'') = Some (JStr i) \<longrightarrow>
      error_message d = Inr (JStr (ascii ''No ticket found with identifier: '' @ i)))"
  by (auto simp: error_message_def truthy_opt_def ToString_opt_def split: option.splits)

lemma trim_13000020: "trim (ascii ''13000020'') = ascii ''13000020''"
  by (simp add: trim_def is_whitespace_def ascii_def)

lemma ascii_13000020_nonempty: "ascii ''13000020'' \<noteq> []"
  by (simp add: ascii_def)

lemma scenario_C_success: "truthy_opt (field scenario_C_payload (ascii ''success''))"
  by (simp add: scenario_C_payload_def truthy_opt_def)

text \<open>
  When the backend answers with a JSON payload whose \<open>success\<close> is truthy and the browser
  takes the write to \<open>localStorage\<close>, the page stores the payload itself, the summary panel
  is selected, and the trimmed identifier goes to the front of the recent searches, in the
  state and in \<open>localStorage\<close>.
\<close>

lemma fetchSummary_success_stored:
  assumes "trim identifier \<noteq> []" and "encodeURIComponent (trim identifier) = Inr u"
    and "fetch (summary_request u) = Response status (Some data)"
    and "truthy_opt (field data (ascii ''success''))"
    and "setItem (updated (trim identifier) (recentSearches s)) = None"
  shows "fetchSummary encodeURIComponent setItem fetch timestampNow identifier s =
           (s\<lparr>summaryData := data, SummaryPage.isLoading := False,
              recentSearches := updated (trim identifier) (recentSearches s),
              stored := Some (updated (trim identifier) (recentSearches s))\<rparr>,
            [summary_request u])"
    and "results (fst (fetchSummary encodeURIComponent setItem fetch timestampNow identifier s))
           = SummaryGenerated"
proof -
  have nn: "truthy data \<and> data \<noteq> JNull" using assms(4) by (rule truthy_opt_field)
  show whole: "fetchSummary encodeURIComponent setItem fetch timestampNow identifier s =
           (s\<lparr>summaryData := data, SummaryPage.isLoading := False,
              recentSearches := updated (trim identifier) (recentSearches s),
              stored := Some (updated (trim identifier) (recentSearches s))\<rparr>,
            [summary_request u])"
    using fetchSummary_json [of "identifier" encodeURIComponent u fetch status data setItem timestampNow s]
      assms nn by simp
  show "results (fst (fetchSummary encodeURIComponent setItem fetch timestampNow identifier s))
           = SummaryGenerated"
    using nn assms(4) by (simp add: whole results_def)
qed

text \<open>
  C5 fails on the code. \<open>saveRecentSearch\<close> runs inside the \<open>try\<close> block of
  \<open>fetchSummary\<close>. For the lookup of \<open>13000020\<close> answered with the success payload of
  scenario C, in a browser whose \<open>localStorage\<close> refuses the write, the exception of
  \<open>setItem\<close> reaches the \<open>catch\<close> block: the page ends with the connection-failed record in
  place of the payload and shows "Could not connect to the backend server", the recent
  searches hold the identifier in the state, and nothing is stored.
\<close>

theorem success_payload_lost_when_storage_refuses:
  "truthy_opt (field scenario_C_payload (ascii ''success'')) \<and>
   fetchSummary Inr storage_full (answering (Response 200 (Some scenario_C_payload)))
       (ascii ''2025-01-01T00:00:05Z'') (ascii ''13000020'') initial_summary_page
     = (\<lparr>searchQuery = [],
         summaryData = connection_failed (ascii ''13000020'') (ascii ''2025-01-01T00:00:05Z''),
         SummaryPage.isLoading = False,
         recentSearches = [ascii ''13000020''],
         stored = None\<rparr>,
        [summary_request (ascii ''13000020'')]) \<and>
   results (fst (fetchSummary Inr storage_full (answering (Response 200 (Some scenario_C_payload)))
       (ascii ''2025-01-01T00:00:05Z'') (ascii ''13000020'') initial_summary_page))
     = SummaryNotFound \<and>
   error_message (summaryData (fst (fetchSummary Inr storage_full
       (answering (Response 200 (Some scenario_C_payload)))
       (ascii ''2025-01-01T00:00:05Z'') (ascii ''13000020'') initial_summary_page)))
     = Inr (JStr summary_error_text)"
proof -
  have nn: "scenario_C_payload \<noteq> JNull" by (simp add: scenario_C_payload_def)
  have whole: "fetchSummary Inr storage_full (answering (Response 200 (Some scenario_C_payload)))
       (ascii ''2025-01-01T00:00:05Z'') (ascii ''13000020'') initial_summary_page
     = (\<lparr>searchQuery = [],
         summaryData = connection_failed (ascii ''13000020'') (ascii ''2025-01-01T00:00:05Z''),
         SummaryPage.isLoading = False,
         recentSearches = [ascii ''13000020''],
         stored = None\<rparr>,
        [summary_request (ascii ''13000020'')])"
    using fetchSummary_json [of "ascii ''13000020''" Inr "ascii ''13000020''"
        "answering (Response 200 (Some scenario_C_payload))" 200 scenario_C_payload
        storage_full "ascii ''2025-01-01T00:00:05Z''" initial_summary_page]
      nn scenario_C_success ascii_13000020_nonempty
    by (simp add: trim_13000020 answering_def storage_full_def initial_summary_page_def updated_def)
  have r: "results \<lparr>searchQuery = [],
         summaryData = connection_failed (ascii ''13000020'') (ascii ''2025-01-01T00:00:05Z''),
         SummaryPage.isLoading = False,
         recentSearches = [ascii ''13000020''],
         stored = None\<rparr> = SummaryNotFound"
    using results_connection_failed [of "ascii ''13000020''" "ascii ''2025-01-01T00:00:05Z''"
         "\<lparr>searchQuery = [], summaryData = JNull,
           SummaryPage.isLoading = False, recentSearches = [ascii ''13000020''], stored = None\<rparr>"]
    by simp
  show ?thesis
    using scenario_C_success r
    by (simp add: whole error_message_connection_failed)
qed

lemma scenario_D_fields:
  "field scenario_D_payload (ascii ''success'') = Some (JBool False)"
  "field scenario_D_payload (ascii ''message'') = Some (JStr (ascii ''No ticket found''))"
  by (simp_all add: scenario_D_payload_def ascii_def)

lemma trim_nonexistent: "trim (ascii ''nonexistent'') = ascii ''nonexistent''"
  by (simp add: trim_def is_whitespace_def ascii_def)

lemma ascii_nonexistent_nonempty: "ascii ''nonexistent'' \<noteq> []"
  by (simp add: ascii_def)

text \<open>
  C6, as amended. A JSON payload with a falsy \<open>success\<close> is stored as it is and the
  "not found" panel is selected. The panel shows the payload's \<open>message\<close> when that is
  truthy; when the message is absent or falsy it shows a generated default that names the
  payload's own \<open>identifier\<close> field: the string it holds (the searched identifier only when
  the backend echoes it), or \<open>undefined\<close> when the payload has none. A rejected \<open>fetch\<close> or
  a body that is not JSON stores the connection-failed record, whose message is fixed and
  ends with the backend's address. In both cases the recent searches and \<open>localStorage\<close>
  are left as they were.
\<close>

theorem lookup_failure:
  assumes "trim identifier \<noteq> []" and "encodeURIComponent (trim identifier) = Inr u"
  shows "(fetch (summary_request u) = Response status (Some data) \<and>
          field data (ascii ''success'') = Some v \<and> \<not> truthy v \<longrightarrow>
            fetchSummary encodeURIComponent setItem fetch timestampNow identifier s =
              (s\<lparr>summaryData := data, SummaryPage.isLoading := False\<rparr>, [summary_request u]) \<and>
            results (fst (fetchSummary encodeURIComponent setItem fetch timestampNow identifier s)) =
              SummaryNotFound \<and>
            (\<forall>m. field data (ascii ''message'') = Some m \<and> truthy m \<longrightarrow>
               error_message (summaryData (fst (fetchSummary encodeURIComponent setItem fetch
                                                   timestampNow identifier s))) = Inr m) \<and>
            (truthy_opt (field data (ascii ''message'')) = False \<and>
             field data (ascii ''identifier'') = None \<longrightarrow>
               error_message (summaryData (fst (fetchSummary encodeURIComponent setItem fetch
                                                   timestampNow identifier s))) =
                 Inr (JStr (ascii ''No ticket found with identifier: '' @ ascii ''undefined''))) \<and>
            (\<forall>i. truthy_opt (field data (ascii ''message'')) = False \<and>
                 field data (ascii ''identifier'') = Some (JStr i) \<longrightarrow>
               error_message (summaryData (fst (fetchSummary encodeURIComponent setItem fetch
                                                   timestampNow identifier s))) =
                 Inr (JStr (ascii ''No ticket found with identifier: '' @ i))) \<and>
            recentSearches (fst (fetchSummary encodeURIComponent setItem fetch timestampNow identifier s)) =
              recentSearches s \<and>
            stored (fst (fetchSummary encodeURIComponent setItem fetch timestampNow identifier s)) =
              stored s) \<and>
         (fetch (summary_request u) = NetworkFailure \<or>
          (\<exists>status. fetch (summary_request u) = Response status None) \<longrightarrow>
            fetchSummary encodeURIComponent setItem fetch timestampNow identifier s =
              (s\<lparr>summaryData := connection_failed identifier timestampNow,
                 SummaryPage.isLoading := False\<rparr>, [summary_request u]) \<and>
            field (connection_failed identifier timestampNow) (ascii ''error'') =
              Some (JStr (ascii ''Connection failed'')) \<and>
            results (fst (fetchSummary encodeURIComponent setItem fetch timestampNow identifier s)) =
              SummaryNotFound \<and>
            error_message (summaryData (fst (fetchSummary encodeURIComponent setItem fetch
                                                timestampNow identifier s))) =
              Inr (JStr summary_error_text) \<and>
            (\<exists>before. summary_error_text = before @ ascii ''localhost:3002'') \<and>
            recentSearches (fst (fetchSummary encodeURIComponent setItem fetch timestampNow identifier s)) =
              recentSearches s \<and>
            stored (fst (fetchSummary encodeURIComponent setItem fetch timestampNow identifier s)) =
              stored s)"
proof (intro conjI impI)
  assume a: "fetch (summary_request u) = Response status (Some data) \<and>
          field data (ascii ''success'') = Some v \<and> \<not> truthy v"
  then have nn: "truthy data \<and> data \<noteq> JNull" using field_Some_truthy by blast
  have whole: "fetchSummary encodeURIComponent setItem fetch timestampNow identifier s =
              (s\<lparr>summaryData := data, SummaryPage.isLoading := False\<rparr>, [summary_request u])"
    using fetchSummary_json [of "identifier" encodeURIComponent u fetch status data setItem timestampNow s]
      assms a nn by (simp add: truthy_opt_def)
  show "fetchSummary encodeURIComponent setItem fetch timestampNow identifier s =
              (s\<lparr>summaryData := data, SummaryPage.isLoading := False\<rparr>, [summary_request u])"
    by (rule whole)
  show "results (fst (fetchSummary encodeURIComponent setItem fetch timestampNow identifier s)) =
              SummaryNotFound"
    using a nn by (simp add: whole results_def truthy_opt_def)
  show "\<forall>m. field data (ascii ''message'') = Some m \<and> truthy m \<longrightarrow>
               error_message (summaryData (fst (fetchSummary encodeURIComponent setItem fetch
                                                   timestampNow identifier s))) = Inr m"
    using error_message_cases [of data] by (simp add: whole)
  show "error_message (summaryData (fst (fetchSummary encodeURIComponent setItem fetch
                                                   timestampNow identifier s))) =
                 Inr (JStr (ascii ''No ticket found with identifier: '' @ ascii ''undefined''))"
    if "truthy_opt (field data (ascii ''message'')) = False \<and>
             field data (ascii ''identifier'') = None"
    using that error_message_cases [of data] by (simp add: whole)
  show "\<forall>i. truthy_opt (field data (ascii ''message'')) = False \<and>
                 field data (ascii ''identifier'') = Some (JStr i) \<longrightarrow>
               error_message (summaryData (fst (fetchSummary encodeURIComponent setItem fetch
                                                   timestampNow identifier s))) =
                 Inr (JStr (ascii ''No ticket found with identifier: '' @ i))"
    using error_message_cases [of data] by (simp add: whole)
  show "recentSearches (fst (fetchSummary encodeURIComponent setItem fetch timestampNow identifier s)) =
              recentSearches s"
    by (simp add: whole)
  show "stored (fst (fetchSummary encodeURIComponent setItem fetch timestampNow identifier s)) = stored s"
    by (simp add: whole)
next
  assume b: "fetch (summary_request u) = NetworkFailure \<or>
          (\<exists>status. fetch (summary_request u) = Response status None)"
  have whole: "fetchSummary encodeURIComponent setItem fetch timestampNow identifier s =
              (s\<lparr>summaryData := connection_failed identifier timestampNow,
                 SummaryPage.isLoading := False\<rparr>, [summary_request u])"
    using fetchSummary_thrown [of "identifier" encodeURIComponent u fetch setItem timestampNow s] assms b
    by blast
  show "fetchSummary encodeURIComponent setItem fetch timestampNow identifier s =
              (s\<lparr>summaryData := connection_failed identifier timestampNow,
                 SummaryPage.isLoading := False\<rparr>, [summary_request u])"
    by (rule whole)
  show "field (connection_failed identifier timestampNow) (ascii ''error'') =
              Some (JStr (ascii ''Connection failed''))"
    using connection_failed_fields [of "identifier" timestampNow] by simp
  show "results (fst (fetchSummary encodeURIComponent setItem fetch timestampNow identifier s)) =
              SummaryNotFound"
    by (simp add: whole results_connection_failed)
  show "error_message (summaryData (fst (fetchSummary encodeURIComponent setItem fetch
                                                timestampNow identifier s))) =
              Inr (JStr summary_error_text)"
    by (simp add: whole error_message_connection_failed)
  show "\<exists>before. summary_error_text = before @ ascii ''localhost:3002''"
    using summary_error_text_names_backend by blast
  show "recentSearches (fst (fetchSummary encodeURIComponent setItem fetch timestampNow identifier s)) =
              recentSearches s"
    by (simp add: whole)
  show "stored (fst (fetchSummary encodeURIComponent setItem fetch timestampNow identifier s)) = stored s"
    by (simp add: whole)
qed

theorem lookup_failure_witness:
  "trim (ascii ''nonexistent'') \<noteq> [] \<and>
   field scenario_D_payload (ascii ''success'') = Some (JBool False) \<and> \<not> truthy (JBool False) \<and>
   field scenario_D_payload (ascii ''message'') = Some (JStr (ascii ''No ticket found'')) \<and>
   truthy (JStr (ascii ''No ticket found'')) \<and>
   results (fst (fetchSummary Inr storage_ok (answering (Response 200 (Some scenario_D_payload)))
                   (ascii ''2025-01-01T00:00:05Z'') (ascii ''nonexistent'') initial_summary_page))
     = SummaryNotFound \<and>
   error_message (summaryData (fst (fetchSummary Inr storage_ok
                   (answering (Response 200 (Some scenario_D_payload)))
                   (ascii ''2025-01-01T00:00:05Z'') (ascii ''nonexistent'') initial_summary_page)))
     = Inr (JStr (ascii ''No ticket found'')) \<and>
   recentSearches (fst (fetchSummary Inr storage_ok (answering (Response 200 (Some scenario_D_payload)))
                   (ascii ''2025-01-01T00:00:05Z'') (ascii ''nonexistent'') initial_summary_page))
     = recentSearches initial_summary_page \<and>
   error_message (summaryData (fst (fetchSummary Inr storage_ok (answering NetworkFailure)
                   (ascii ''2025-01-01T00:00:05Z'') (ascii ''nonexistent'') initial_summary_page)))
     = Inr (JStr summary_error_text)"
proof -
  have h1: "trim (ascii ''nonexistent'') \<noteq> []"
    by (simp add: trim_nonexistent ascii_nonexistent_nonempty)
  have h2: "Inr (trim (ascii ''nonexistent'')) = (Inr (trim (ascii ''nonexistent'')) :: js_error + js_string)"
    by simp
  have h3: "answering (Response 200 (Some scenario_D_payload)) (summary_request (trim (ascii ''nonexistent'')))
              = Response 200 (Some scenario_D_payload)"
    by (simp add: answering_def)
  have h5: "\<not> truthy (JBool False)" by simp
  have tm: "truthy (JStr (ascii ''No ticket found''))" by (simp add: ascii_def)
  have h6: "answering NetworkFailure (summary_request (trim (ascii ''nonexistent''))) = NetworkFailure"
    by (simp add: answering_def)
  note c = lookup_failure [of "ascii ''nonexistent''" Inr "trim (ascii ''nonexistent'')"
      "answering (Response 200 (Some scenario_D_payload))" 200 scenario_D_payload "JBool False"
      storage_ok "ascii ''2025-01-01T00:00:05Z''" initial_summary_page, OF h1 h2]
  note d = lookup_failure [of "ascii ''nonexistent''" Inr "trim (ascii ''nonexistent'')"
      "answering NetworkFailure" 200 scenario_D_payload "JBool False"
      storage_ok "ascii ''2025-01-01T00:00:05Z''" initial_summary_page, OF h1 h2]
  have r0: "results (fst (fetchSummary Inr storage_ok (answering (Response 200 (Some scenario_D_payload)))
                   (ascii ''2025-01-01T00:00:05Z'') (ascii ''nonexistent'') initial_summary_page))
     = SummaryNotFound"
    using c h3 scenario_D_fields(1) h5 by blast
  have r1: "error_message (summaryData (fst (fetchSummary Inr storage_ok
                   (answering (Response 200 (Some scenario_D_payload)))
                   (ascii ''2025-01-01T00:00:05Z'') (ascii ''nonexistent'') initial_summary_page)))
     = Inr (JStr (ascii ''No ticket found''))"
    using c h3 scenario_D_fields h5 tm by blast
  have r2: "recentSearches (fst (fetchSummary Inr storage_ok (answering (Response 200 (Some scenario_D_payload)))
                   (ascii ''2025-01-01T00:00:05Z'') (ascii ''nonexistent'') initial_summary_page))
     = recentSearches initial_summary_page"
    using c h3 scenario_D_fields(1) h5 by blast
  have r3: "error_message (summaryData (fst (fetchSummary Inr storage_ok (answering NetworkFailure)
                   (ascii ''2025-01-01T00:00:05Z'') (ascii ''nonexistent'') initial_summary_page)))
     = Inr (JStr summary_error_text)"
    using d h6 by blast
  show ?thesis using h1 scenario_D_fields h5 tm r0 r1 r2 r3 by blast
qed

text \<open>
  C6 as stated fails: the default message does not refer to the searched identifier. For
  the search \<open>nonexistent\<close> and the payload \<open>{success: false}\<close> it ends with
  \<open>undefined\<close>; for a payload with an empty message and the identifier \<open>other\<close> it is
  shown although the payload has a message, and it names \<open>other\<close>.
\<close>

theorem lookup_failure_counterexample:
  "trim (ascii ''nonexistent'') = ascii ''nonexistent'' \<and>
   error_message (summaryData (fst (fetchSummary Inr storage_ok
                   (answering (Response 200 (Some (JObj [(ascii ''success'', JBool False)]))))
                   (ascii ''2025-01-01T00:00:05Z'') (ascii ''nonexistent'') initial_summary_page)))
     = Inr (JStr (ascii ''No ticket found with identifier: undefined'')) \<and>
   error_message (summaryData (fst (fetchSummary Inr storage_ok
                   (answering (Response 200 (Some (JObj [(ascii ''success'', JBool False),
                                                          (ascii ''identifier'', JStr (ascii ''other'')),
                                                          (ascii ''summary'', JStr []),
                                                          (ascii ''conversationLength'', JNum (ascii ''0'')),
                                                          (ascii ''attachmentCount'', JNum (ascii ''0'')),
                                                          (ascii ''timestamp'', JStr (ascii ''2025-01-01T00:00:00Z'')),
                                                          (ascii ''message'', JStr [])]))))
                   (ascii ''2025-01-01T00:00:05Z'') (ascii ''nonexistent'') initial_summary_page)))
     = Inr (JStr (ascii ''No ticket found with identifier: other''))"
  by (simp add: fetchSummary_def fetchSummary_try_def get_prop_def answering_def truthy_opt_def
      error_message_def ToString_opt_def initial_summary_page_def
      trim_def is_whitespace_def ascii_def)

text \<open>
  C9, as amended. What a lookup stores is one flat value. It is the record built by the
  \<open>catch\<close> block whenever the \<open>try\<close> block throws before a payload is accepted: the
  identifier cannot be encoded, \<open>fetch\<close> rejects, the body is not JSON, or the body is
  \<open>null\<close>. Otherwise it is the JSON payload exactly as it came, whatever fields it has
  (for a payload with a truthy \<open>success\<close>: when the write to \<open>localStorage\<close> is taken). The
  record of the \<open>catch\<close> block has \<open>success = false\<close>, the trimmed identifier, \<open>error\<close>,
  \<open>message\<close> and a timestamp, carries the fields of a summary with placeholder contents
  (an empty summary, zero counts), and lacks only \<open>ticket\<close>; it selects the "not found"
  panel with the fixed message.
\<close>

theorem lookup_result_is_flat_record:
  assumes "trim identifier \<noteq> []"
  shows "(\<forall>e. encodeURIComponent (trim identifier) = Inl e \<longrightarrow>
            fetchSummary encodeURIComponent setItem fetch timestampNow identifier s =
              (s\<lparr>summaryData := connection_failed identifier timestampNow,
                 SummaryPage.isLoading := False\<rparr>, [])) \<and>
         (\<forall>u. encodeURIComponent (trim identifier) = Inr u \<and>
              (fetch (summary_request u) = NetworkFailure \<or>
               (\<exists>status. fetch (summary_request u) = Response status None) \<or>
               (\<exists>status. fetch (summary_request u) = Response status (Some JNull))) \<longrightarrow>
            fetchSummary encodeURIComponent setItem fetch timestampNow identifier s =
              (s\<lparr>summaryData := connection_failed identifier timestampNow,
                 SummaryPage.isLoading := False\<rparr>, [summary_request u])) \<and>
         (\<forall>u status data.
              encodeURIComponent (trim identifier) = Inr u \<and>
              fetch (summary_request u) = Response status (Some data) \<and> data \<noteq> JNull \<and>
              (truthy_opt (field data (ascii ''success'')) \<longrightarrow>
                 setItem (updated (trim identifier) (recentSearches s)) = None) \<longrightarrow>
            summaryData (fst (fetchSummary encodeURIComponent setItem fetch timestampNow identifier s)) =
              data \<and>
            \<not> SummaryPage.isLoading (fst (fetchSummary encodeURIComponent setItem fetch
                                            timestampNow identifier s))) \<and>
         map (field (connection_failed identifier timestampNow))
             [ascii ''success'', ascii ''identifier'', ascii ''summary'', ascii ''conversationLength'',
              ascii ''attachmentCount'', ascii ''timestamp'', ascii ''error'', ascii ''message'',
              ascii ''ticket'']
           = [Some (JBool False), Some (JStr (trim identifier)), Some (JStr []),
              Some (JNum (ascii ''0'')), Some (JNum (ascii ''0'')), Some (JStr timestampNow),
              Some (JStr (ascii ''Connection failed'')), Some (JStr summary_error_text), None] \<and>
         results (s\<lparr>summaryData := connection_failed identifier timestampNow,
                    SummaryPage.isLoading := False\<rparr>) = SummaryNotFound \<and>
         error_message (connection_failed identifier timestampNow) = Inr (JStr summary_error_text)"
proof (intro conjI allI impI)
  fix e
  assume "encodeURIComponent (trim identifier) = Inl e"
  then show "fetchSummary encodeURIComponent setItem fetch timestampNow identifier s =
              (s\<lparr>summaryData := connection_failed identifier timestampNow,
                 SummaryPage.isLoading := False\<rparr>, [])"
    using fetchSummary_URIError [of "identifier" encodeURIComponent e setItem fetch timestampNow s] assms
    by simp
next
  fix u
  assume "encodeURIComponent (trim identifier) = Inr u \<and>
              (fetch (summary_request u) = NetworkFailure \<or>
               (\<exists>status. fetch (summary_request u) = Response status None) \<or>
               (\<exists>status. fetch (summary_request u) = Response status (Some JNull)))"
  then show "fetchSummary encodeURIComponent setItem fetch timestampNow identifier s =
              (s\<lparr>summaryData := connection_failed identifier timestampNow,
                 SummaryPage.isLoading := False\<rparr>, [summary_request u])"
    using fetchSummary_thrown [of "identifier" encodeURIComponent u fetch setItem timestampNow s] assms
    by blast
next
  fix u status data
  assume a: "encodeURIComponent (trim identifier) = Inr u \<and>
              fetch (summary_request u) = Response status (Some data) \<and> data \<noteq> JNull \<and>
              (truthy_opt (field data (ascii ''success'')) \<longrightarrow>
                 setItem (updated (trim identifier) (recentSearches s)) = None)"
  note j = fetchSummary_json [of "identifier" encodeURIComponent u fetch status data setItem timestampNow s]
  show "summaryData (fst (fetchSummary encodeURIComponent setItem fetch timestampNow identifier s)) = data"
    using j assms a by (cases "truthy_opt (field data (ascii ''success''))") simp_all
  show "\<not> SummaryPage.isLoading (fst (fetchSummary encodeURIComponent setItem fetch
                                            timestampNow identifier s))"
    using j assms a by (cases "truthy_opt (field data (ascii ''success''))") simp_all
next
  show "map (field (connection_failed identifier timestampNow))
             [ascii ''success'', ascii ''identifier'', ascii ''summary'', ascii ''conversationLength'',
              ascii ''attachmentCount'', ascii ''timestamp'', ascii ''error'', ascii ''message'',
              ascii ''ticket'']
           = [Some (JBool False), Some (JStr (trim identifier)), Some (JStr []),
              Some (JNum (ascii ''0'')), Some (JNum (ascii ''0'')), Some (JStr timestampNow),
              Some (JStr (ascii ''Connection failed'')), Some (JStr summary_error_text), None]"
    by (rule connection_failed_fields)
  show "results (s\<lparr>summaryData := connection_failed identifier timestampNow,
                    SummaryPage.isLoading := False\<rparr>) = SummaryNotFound"
    by (rule results_connection_failed)
  show "error_message (connection_failed identifier timestampNow) = Inr (JStr summary_error_text)"
    by (rule error_message_connection_failed)
qed

theorem lookup_result_is_flat_record_witness:
  "trim (ascii ''13000020'') \<noteq> [] \<and>
   answering NetworkFailure (summary_request (trim (ascii ''13000020''))) = NetworkFailure \<and>
   summaryData (fst (fetchSummary Inr storage_ok (answering NetworkFailure)
                   (ascii ''2025-01-01T00:00:05Z'') (ascii ''13000020'') initial_summary_page))
     = connection_failed (ascii ''13000020'') (ascii ''2025-01-01T00:00:05Z'') \<and>
   scenario_D_payload \<noteq> JNull \<and>
   truthy_opt (field scenario_D_payload (ascii ''success'')) = False \<and>
   summaryData (fst (fetchSummary Inr storage_ok (answering (Response 200 (Some scenario_D_payload)))
                   (ascii ''2025-01-01T00:00:05Z'') (ascii ''13000020'') initial_summary_page))
     = scenario_D_payload"
proof -
  have h1: "trim (ascii ''13000020'') \<noteq> []"
    by (simp add: trim_13000020 ascii_13000020_nonempty)
  have e: "Inr (trim (ascii ''13000020'')) = (Inr (trim (ascii ''13000020'')) :: js_error + js_string)"
    by simp
  have h2: "answering NetworkFailure (summary_request (trim (ascii ''13000020''))) = NetworkFailure"
    by (simp add: answering_def)
  have h3: "answering (Response 200 (Some scenario_D_payload)) (summary_request (trim (ascii ''13000020'')))
              = Response 200 (Some scenario_D_payload)"
    by (simp add: answering_def)
  have h4: "scenario_D_payload \<noteq> JNull" by (simp add: scenario_D_payload_def)
  have h5: "truthy_opt (field scenario_D_payload (ascii ''success'')) = False"
    by (simp add: scenario_D_fields truthy_opt_def)
  note c = lookup_result_is_flat_record [of "ascii ''13000020''" Inr storage_ok
      "answering NetworkFailure" "ascii ''2025-01-01T00:00:05Z''" initial_summary_page, OF h1]
  note d = lookup_result_is_flat_record [of "ascii ''13000020''" Inr storage_ok
      "answering (Response 200 (Some scenario_D_payload))" "ascii ''2025-01-01T00:00:05Z''"
      initial_summary_page, OF h1]
  have "fetchSummary Inr storage_ok (answering NetworkFailure)
            (ascii ''2025-01-01T00:00:05Z'') (ascii ''13000020'') initial_summary_page =
          (initial_summary_page\<lparr>summaryData := connection_failed (ascii ''13000020'') (ascii ''2025-01-01T00:00:05Z''),
                 SummaryPage.isLoading := False\<rparr>, [summary_request (trim (ascii ''13000020''))])"
    using c e h2 by blast
  then have r1: "summaryData (fst (fetchSummary Inr storage_ok (answering NetworkFailure)
                   (ascii ''2025-01-01T00:00:05Z'') (ascii ''13000020'') initial_summary_page))
     = connection_failed (ascii ''13000020'') (ascii ''2025-01-01T00:00:05Z'')"
    by simp
  have r2: "summaryData (fst (fetchSummary Inr storage_ok (answering (Response 200 (Some scenario_D_payload)))
                   (ascii ''2025-01-01T00:00:05Z'') (ascii ''13000020'') initial_summary_page))
     = scenario_D_payload"
    using d e h3 h4 h5 by blast
  show ?thesis using h1 h2 h4 h5 r1 r2 by blast
qed

text \<open>
  C9 as stated fails. After a network failure the stored result has the fields of the
  success case, with an empty string and zeros in them. And a payload that marks failure
  but carries a summary and a ticket is stored with them.
\<close>

theorem lookup_result_counterexample:
  "map (field (summaryData (fst (fetchSummary Inr storage_ok (answering NetworkFailure)
            (ascii ''2025-01-01T00:00:05Z'') (ascii ''13000020'') initial_summary_page))))
       [ascii ''summary'', ascii ''conversationLength'', ascii ''attachmentCount'']
     = [Some (JStr []), Some (JNum (ascii ''0'')), Some (JNum (ascii ''0''))] \<and>
   map (field (summaryData (fst (fetchSummary Inr storage_ok
            (answering (Response 200 (Some (JObj [(ascii ''success'', JBool False),
                                                   (ascii ''message'', JStr (ascii ''No ticket found'')),
                                                   (ascii ''summary'', JStr (ascii ''...'')),
                                                   (ascii ''ticket'', JObj [])]))))
            (ascii ''2025-01-01T00:00:05Z'') (ascii ''13000020'') initial_summary_page))))
       [ascii ''success'', ascii ''summary'', ascii ''ticket'']
     = [Some (JBool False), Some (JStr (ascii ''...'')), Some (JObj [])]"
  by (simp add: fetchSummary_def fetchSummary_try_def answering_def connection_failed_def
      get_prop_def truthy_opt_def initial_summary_page_def trim_def is_whitespace_def ascii_def)

text \<open>
  C10, as amended. \<open>fetchSummary\<close> never looks at the status: a response with any status
  and a JSON body leaves the page exactly as a 200 response with that body does. When the
  body is not \<open>null\<close> and its \<open>success\<close> is falsy, it is stored as the result. When its
  \<open>success\<close> is truthy, the trimmed identifier goes to the front of the recent searches,
  and the body is stored as the result when the write to \<open>localStorage\<close> is taken.
\<close>

theorem lookup_ignores_status:
  assumes "trim identifier \<noteq> []" and "encodeURIComponent (trim identifier) = Inr u"
    and "fetch (summary_request u) = Response status (Some data)"
  shows "fetchSummary encodeURIComponent setItem fetch timestampNow identifier s =
           fetchSummary encodeURIComponent setItem (answering (Response 200 (Some data)))
             timestampNow identifier s \<and>
         (data \<noteq> JNull \<and> truthy_opt (field data (ascii ''success'')) = False \<longrightarrow>
            summaryData (fst (fetchSummary encodeURIComponent setItem fetch timestampNow identifier s)) =
              data) \<and>
         (truthy_opt (field data (ascii ''success'')) \<longrightarrow>
            recentSearches (fst (fetchSummary encodeURIComponent setItem fetch timestampNow identifier s)) =
              trim identifier # take 4 (filter (\<lambda>s. s \<noteq> trim identifier) (recentSearches s)) \<and>
            (setItem (updated (trim identifier) (recentSearches s)) = None \<longrightarrow>
               summaryData (fst (fetchSummary encodeURIComponent setItem fetch timestampNow identifier s)) =
                 data))"
proof -
  have same: "fetchSummary encodeURIComponent setItem fetch timestampNow identifier s =
           fetchSummary encodeURIComponent setItem (answering (Response 200 (Some data)))
             timestampNow identifier s"
    using assms by (simp add: fetchSummary_def fetchSummary_try_def answering_def)
  note j = fetchSummary_json [of "identifier" encodeURIComponent u fetch status data setItem timestampNow s]
  have falsy: "data \<noteq> JNull \<and> truthy_opt (field data (ascii ''success'')) = False \<longrightarrow>
            summaryData (fst (fetchSummary encodeURIComponent setItem fetch timestampNow identifier s)) =
              data"
    using j assms by simp
  have truthy: "truthy_opt (field data (ascii ''success'')) \<longrightarrow>
            recentSearches (fst (fetchSummary encodeURIComponent setItem fetch timestampNow identifier s)) =
              trim identifier # take 4 (filter (\<lambda>s. s \<noteq> trim identifier) (recentSearches s)) \<and>
            (setItem (updated (trim identifier) (recentSearches s)) = None \<longrightarrow>
               summaryData (fst (fetchSummary encodeURIComponent setItem fetch timestampNow identifier s)) =
                 data)"
  proof
    assume t: "truthy_opt (field data (ascii ''success''))"
    then have nn: "data \<noteq> JNull" using truthy_opt_field by blast
    show "recentSearches (fst (fetchSummary encodeURIComponent setItem fetch timestampNow identifier s)) =
              trim identifier # take 4 (filter (\<lambda>s. s \<noteq> trim identifier) (recentSearches s)) \<and>
            (setItem (updated (trim identifier) (recentSearches s)) = None \<longrightarrow>
               summaryData (fst (fetchSummary encodeURIComponent setItem fetch timestampNow identifier s)) =
                 data)"
      using j assms t nn
      by (cases "setItem (updated (trim identifier) (recentSearches s))") (simp_all add: updated_Cons)
  qed
  show ?thesis using same falsy truthy by blast
qed

theorem lookup_ignores_status_witness:
  "trim (ascii ''13000020'') \<noteq> [] \<and> \<not> ok 500 \<and>
   truthy_opt (field scenario_C_payload (ascii ''success'')) \<and>
   storage_ok (updated (trim (ascii ''13000020'')) (recentSearches initial_summary_page)) = None \<and>
   summaryData (fst (fetchSummary Inr storage_ok (answering (Response 500 (Some scenario_C_payload)))
                   (ascii ''2025-01-01T00:00:05Z'') (ascii ''13000020'') initial_summary_page))
     = scenario_C_payload \<and>
   recentSearches (fst (fetchSummary Inr storage_ok (answering (Response 500 (Some scenario_C_payload)))
                   (ascii ''2025-01-01T00:00:05Z'') (ascii ''13000020'') initial_summary_page))
     = [ascii ''13000020'']"
proof -
  have h1: "trim (ascii ''13000020'') \<noteq> []"
    by (simp add: trim_13000020 ascii_13000020_nonempty)
  have h2: "Inr (trim (ascii ''13000020'')) = (Inr (trim (ascii ''13000020'')) :: js_error + js_string)" by simp
  have h3: "answering (Response 500 (Some scenario_C_payload)) (summary_request (trim (ascii ''13000020'')))
              = Response 500 (Some scenario_C_payload)"
    by (simp add: answering_def)
  have h5: "storage_ok (updated (trim (ascii ''13000020'')) (recentSearches initial_summary_page)) = None"
    by (simp add: storage_ok_def)
  have h6: "\<not> ok 500" by (simp add: ok_def)
  have e: "recentSearches initial_summary_page = []" by (simp add: initial_summary_page_def)
  note c = lookup_ignores_status [of "ascii ''13000020''" Inr "trim (ascii ''13000020'')"
      "answering (Response 500 (Some scenario_C_payload))" 500 scenario_C_payload
      storage_ok "ascii ''2025-01-01T00:00:05Z''" initial_summary_page, OF h1 h2 h3]
  have r1: "summaryData (fst (fetchSummary Inr storage_ok (answering (Response 500 (Some scenario_C_payload)))
                   (ascii ''2025-01-01T00:00:05Z'') (ascii ''13000020'') initial_summary_page))
     = scenario_C_payload"
    using c scenario_C_success h5 by blast
  have "recentSearches (fst (fetchSummary Inr storage_ok (answering (Response 500 (Some scenario_C_payload)))
                   (ascii ''2025-01-01T00:00:05Z'') (ascii ''13000020'') initial_summary_page))
     = trim (ascii ''13000020'') #
         take 4 (filter (\<lambda>s. s \<noteq> trim (ascii ''13000020'')) (recentSearches initial_summary_page))"
    using c scenario_C_success by blast
  then have r2: "recentSearches (fst (fetchSummary Inr storage_ok (answering (Response 500 (Some scenario_C_payload)))
                   (ascii ''2025-01-01T00:00:05Z'') (ascii ''13000020'') initial_summary_page))
     = [ascii ''13000020'']"
    by (simp add: e trim_13000020)
  show ?thesis using h1 scenario_C_success h5 h6 r1 r2 by blast
qed

text \<open>
  C10 as stated fails for the JSON body \<open>null\<close>: with status 404 the page ends with the
  connection-failed record, because reading \<open>data.success\<close> throws into the \<open>catch\<close>
  block.
\<close>

theorem lookup_ignores_status_counterexample:
  "\<not> ok 404 \<and>
   summaryData (fst (fetchSummary Inr storage_ok (answering (Response 404 (Some JNull)))
                   (ascii ''2025-01-01T00:00:05Z'') (ascii ''13000020'') initial_summary_page))
     = connection_failed (ascii ''13000020'') (ascii ''2025-01-01T00:00:05Z'') \<and>
   connection_failed (ascii ''13000020'') (ascii ''2025-01-01T00:00:05Z'') \<noteq> JNull \<and>
   results (fst (fetchSummary Inr storage_ok (answering (Response 404 (Some JNull)))
                   (ascii ''2025-01-01T00:00:05Z'') (ascii ''13000020'') initial_summary_page))
     = SummaryNotFound \<and>
   error_message (summaryData (fst (fetchSummary Inr storage_ok (answering (Response 404 (Some JNull)))
                   (ascii ''2025-01-01T00:00:05Z'') (ascii ''13000020'') initial_summary_page)))
     = Inr (JStr summary_error_text)"
proof -
  have h1: "trim (ascii ''13000020'') \<noteq> []"
    by (simp add: trim_13000020 ascii_13000020_nonempty)
  have w: "fetchSummary Inr storage_ok (answering (Response 404 (Some JNull)))
                   (ascii ''2025-01-01T00:00:05Z'') (ascii ''13000020'') initial_summary_page
        = (initial_summary_page\<lparr>summaryData := connection_failed (ascii ''13000020'') (ascii ''2025-01-01T00:00:05Z''),
              SummaryPage.isLoading := False\<rparr>, [summary_request (trim (ascii ''13000020''))])"
    using h1 by (simp add: fetchSummary_def fetchSummary_try_def answering_def get_prop_def)
  show ?thesis
    by (simp add: w results_connection_failed error_message_connection_failed ok_def)
       (simp add: connection_failed_def)
qed

end
